theory Spec2Isabelle
  imports Complex_Main
begin

section \<open>dweather\_client/arithmetic.py: term aggregation over daily series\<close>

text \<open>
  A shallow embedding of \<^verbatim>\<open>src/dweather_client/arithmetic.py\<close>. Python's unbounded
  integers are \<open>int\<close>. Daily values are Python floats; they are modelled as exact reals,
  so rounding and NaN inside the rainfall series are outside this model. Every exception
  the code can raise is a value of type \<open>error\<close>, and a function that can raise returns
  \<open>error + 'a\<close> with \<open>Inl\<close> for the exception.
\<close>

subsection \<open>Dates\<close>

text \<open>
  \<^verbatim>\<open>datetime.date\<close>: a year, a month and a day. The class only ever holds a date of
  the proleptic Gregorian calendar with \<open>1 \<le> year \<le> 9999\<close>; its constructor, and
  \<^verbatim>\<open>replace\<close>, which calls the constructor, raise \<^verbatim>\<open>ValueError\<close> otherwise.
\<close>

record date =
  year :: int
  month :: int
  day :: int

datatype error =
    DatasetError
  | InputOutOfRangeError
  | CoordinateNotFoundError
  | DataMalformedError
  | InvalidRangeError
  | KeyError date
  | ColumnKeyError string
  | IndexError
  | ValueError
  | NameError

definition is_leap :: "int \<Rightarrow> bool" where
  "is_leap y = (y mod 4 = 0 \<and> (y mod 400 = 0 \<or> y mod 100 \<noteq> 0))"

definition days_in_month :: "int \<Rightarrow> int \<Rightarrow> int" where
  "days_in_month y m =
     (if m = 2 then (if is_leap y then 29 else 28)
      else if m = 4 \<or> m = 6 \<or> m = 9 \<or> m = 11 then 30 else 31)"

definition valid_date :: "date \<Rightarrow> bool" where
  "valid_date d =
     (1 \<le> year d \<and> year d \<le> 9999 \<and> 1 \<le> month d \<and> month d \<le> 12 \<and>
      1 \<le> day d \<and> day d \<le> days_in_month (year d) (month d))"

text \<open>\<^verbatim>\<open>d.replace(year=y)\<close>: the date with the same month and day in year \<open>y\<close>, or
  \<^verbatim>\<open>ValueError\<close> when that is not a date.\<close>

definition replace_year :: "date \<Rightarrow> int \<Rightarrow> error + date" where
  "replace_year d y =
     (if valid_date (d\<lparr>year := y\<rparr>) then Inr (d\<lparr>year := y\<rparr>) else Inl ValueError)"

text \<open>Dates compare as the triples (year, month, day).\<close>

definition date_less :: "date \<Rightarrow> date \<Rightarrow> bool" where
  "date_less a b =
     (year a < year b \<or> (year a = year b \<and>
        (month a < month b \<or> (month a = month b \<and> day a < day b))))"

definition date_le :: "date \<Rightarrow> date \<Rightarrow> bool" where
  "date_le a b = (a = b \<or> date_less a b)"

subsection \<open>Series and the imported names\<close>

text \<open>
  A rainfall dict maps dates to daily values and keeps its insertion order, which
  \<^verbatim>\<open>list(rainfall_dict)[-1]\<close> reads: an association list, looked up with \<open>map_of\<close>.
\<close>

type_synonym series = "(date \<times> real) list"

text \<open>
  The module calls three functions it does not define. \<^verbatim>\<open>get_rainfall_dict\<close> and
  \<^verbatim>\<open>listify_period\<close> are imported from \<^verbatim>\<open>dweather_client.http_client\<close> and
  \<^verbatim>\<open>dweather_client.utils\<close>, which are not among the sources: the two are
  parameters of the model, collected in one record, and every theorem below holds
  whatever they do. The fetch returns a series or raises.
\<close>

record ('c, 'ds) externals =
  get_rainfall_dict :: "'c \<Rightarrow> 'c \<Rightarrow> 'ds \<Rightarrow> error + series"
  listify_period :: "date \<Rightarrow> date \<Rightarrow> error + date list"

text \<open>
  The third, \<^verbatim>\<open>get_rev_rainfall_dict\<close>, is called on lines 36 and 75, but the module
  neither imports nor defines the name: it is unbound in the module's namespace, and the
  call raises \<^verbatim>\<open>NameError\<close> whatever its arguments are.
\<close>

definition get_rev_rainfall_dict ::
  "'c \<Rightarrow> 'c \<Rightarrow> 'ds \<Rightarrow> date \<Rightarrow> 'rev option \<Rightarrow> error + (series \<times> bool)" where
  "get_rev_rainfall_dict lat lon dataset end_date final_rev = Inl NameError"

definition HISTORICAL_START_YEAR :: int where
  "HISTORICAL_START_YEAR = 1981"

text \<open>\<^verbatim>\<open>if daily_cap:\<close> tests the cap for truthiness: \<^verbatim>\<open>None\<close> and zero are false.\<close>

definition truthy :: "real option \<Rightarrow> bool" where
  "truthy daily_cap = (case daily_cap of None \<Rightarrow> False | Some c \<Rightarrow> c \<noteq> 0)"

text \<open>
  The comprehension \<^verbatim>\<open>[f(rainfall_dict[date]) for date in dates]\<close>: the first date
  that is not a key raises \<^verbatim>\<open>KeyError\<close> (the spec's MissingDateError).
\<close>

fun lookup_each :: "series \<Rightarrow> (real \<Rightarrow> real) \<Rightarrow> date list \<Rightarrow> error + real list" where
  "lookup_each rainfall_dict f [] = Inr []"
| "lookup_each rainfall_dict f (d # dates) =
     (case map_of rainfall_dict d of
        None \<Rightarrow> Inl (KeyError d)
      | Some v \<Rightarrow>
          (case lookup_each rainfall_dict f dates of
             Inl e \<Rightarrow> Inl e
           | Inr vs \<Rightarrow> Inr (f v # vs)))"

text \<open>
  Lines 44 to 48, and again 91 to 95: the capped or the plain comprehension over the
  dates, then the sum of the values and their number.
\<close>

definition rain_total :: "series \<Rightarrow> real option \<Rightarrow> date list \<Rightarrow> error + (real \<times> nat)" where
  "rain_total rainfall_dict daily_cap dates =
     (case (if truthy daily_cap
            then lookup_each rainfall_dict (\<lambda>v. min v (the daily_cap)) dates
            else lookup_each rainfall_dict (\<lambda>v. v) dates) of
        Inl e \<Rightarrow> Inl e
      | Inr rain \<Rightarrow> Inr (sum_list rain, length rain))"

subsection \<open>The two rainfall operations\<close>

text \<open>
  Lines 34 to 42 of \<^verbatim>\<open>sum_period_rainfall\<close>, and the same lines 73 to 81 of
  \<^verbatim>\<open>build_historical_rainfall_dict\<close>: fetch the series, and with \<^verbatim>\<open>use_prelim\<close>
  move the end date to the last key when the series is not final and lacks the end date.
  \<^verbatim>\<open>list(rainfall_dict)[-1]\<close> raises \<^verbatim>\<open>IndexError\<close> on an empty dict. The lines
  are modelled as written; since the call on their first line raises, the lines after it
  never run. The result is the state the rest of the function runs in: the series, the
  end date, the flag.
\<close>

definition resolve_series ::
  "('c, 'ds) externals \<Rightarrow> 'c \<Rightarrow> 'c \<Rightarrow> 'ds \<Rightarrow> date \<Rightarrow> bool \<Rightarrow> 'rev option \<Rightarrow>
     error + (series \<times> date \<times> bool)" where
  "resolve_series env lat lon dataset end_date use_prelim final_rev =
     (if use_prelim
      then (case get_rev_rainfall_dict lat lon dataset end_date final_rev of
              Inl e \<Rightarrow> Inl e
            | Inr (rainfall_dict, is_final) \<Rightarrow>
                if \<not> is_final \<and> end_date \<notin> set (map fst rainfall_dict)
                then (if rainfall_dict = [] then Inl IndexError
                      else Inr (rainfall_dict, fst (last rainfall_dict), is_final))
                else Inr (rainfall_dict, end_date, is_final))
      else (case get_rainfall_dict env lat lon dataset of
              Inl e \<Rightarrow> Inl e
            | Inr rainfall_dict \<Rightarrow> Inr (rainfall_dict, end_date, True)))"

definition sum_period_rainfall ::
  "('c, 'ds) externals \<Rightarrow> 'c \<Rightarrow> 'c \<Rightarrow> 'ds \<Rightarrow> date \<Rightarrow> date \<Rightarrow> real option \<Rightarrow> bool \<Rightarrow>
     'rev option \<Rightarrow> error + (real \<times> nat \<times> bool)" where
  "sum_period_rainfall env lat lon dataset start_date end_date daily_cap use_prelim final_rev =
     (case resolve_series env lat lon dataset end_date use_prelim final_rev of
        Inl e \<Rightarrow> Inl e
      | Inr (rainfall_dict, end_date', is_final) \<Rightarrow>
          (case listify_period env start_date end_date' of
             Inl e \<Rightarrow> Inl e
           | Inr dates \<Rightarrow>
               (case rain_total rainfall_dict daily_cap dates of
                  Inl e \<Rightarrow> Inl e
                | Inr (s, n) \<Rightarrow> Inr (s, n, is_final))))"

text \<open>
  Lines 87 to 90, the dates of the term of one year: the start date projected onto the
  year, the end date projected onto the year plus the offset of the base term, and the
  dates between the two.
\<close>

definition year_term ::
  "('c, 'ds) externals \<Rightarrow> date \<Rightarrow> date \<Rightarrow> int \<Rightarrow> error + date list" where
  "year_term env start_date end_date y =
     (case replace_year start_date y of
        Inl e \<Rightarrow> Inl e
      | Inr historical_start \<Rightarrow>
          (case replace_year end_date (y + (year end_date - year start_date)) of
             Inl e \<Rightarrow> Inl e
           | Inr historical_end \<Rightarrow> listify_period env historical_start historical_end))"

text \<open>The body of the loop for one year (lines 87 to 95): the total and the day count
  of the year's term.\<close>

definition year_entry ::
  "('c, 'ds) externals \<Rightarrow> series \<Rightarrow> date \<Rightarrow> date \<Rightarrow> real option \<Rightarrow> int \<Rightarrow>
     error + (real \<times> nat)" where
  "year_entry env rainfall_dict start_date end_date daily_cap y =
     (case year_term env start_date end_date y of
        Inl e \<Rightarrow> Inl e
      | Inr dates \<Rightarrow> rain_total rainfall_dict daily_cap dates)"

text \<open>
  The loop over the years (lines 86 to 95), with the dict \<^verbatim>\<open>yearly_rainfall\<close> as the
  accumulator: each year stores its entry under its key; an exception in one year ends
  the call.
\<close>

fun year_loop ::
  "('c, 'ds) externals \<Rightarrow> series \<Rightarrow> date \<Rightarrow> date \<Rightarrow> real option \<Rightarrow> int list \<Rightarrow>
     (int \<rightharpoonup> real \<times> nat) \<Rightarrow> error + (int \<rightharpoonup> real \<times> nat)" where
  "year_loop env rainfall_dict start_date end_date daily_cap [] yearly_rainfall =
     Inr yearly_rainfall"
| "year_loop env rainfall_dict start_date end_date daily_cap (y # ys) yearly_rainfall =
     (case year_entry env rainfall_dict start_date end_date daily_cap y of
        Inl e \<Rightarrow> Inl e
      | Inr v \<Rightarrow>
          year_loop env rainfall_dict start_date end_date daily_cap ys (yearly_rainfall(y \<mapsto> v)))"

text \<open>\<^verbatim>\<open>end_year\<close> is \<open>None\<close> when the caller leaves it out; a caller that leaves
  \<^verbatim>\<open>start_year\<close> out passes \<open>HISTORICAL_START_YEAR\<close>.\<close>

definition build_historical_rainfall_dict ::
  "('c, 'ds) externals \<Rightarrow> 'c \<Rightarrow> 'c \<Rightarrow> 'ds \<Rightarrow> date \<Rightarrow> date \<Rightarrow> real option \<Rightarrow> int \<Rightarrow>
     int option \<Rightarrow> bool \<Rightarrow> 'rev option \<Rightarrow> error + ((int \<rightharpoonup> real \<times> nat) \<times> bool)" where
  "build_historical_rainfall_dict env lat lon dataset start_date end_date daily_cap start_year
       end_year use_prelim final_rev =
     (case resolve_series env lat lon dataset end_date use_prelim final_rev of
        Inl e \<Rightarrow> Inl e
      | Inr (rainfall_dict, end_date', is_final) \<Rightarrow>
          (case year_loop env rainfall_dict start_date end_date' daily_cap
                  [start_year .. (case end_year of None \<Rightarrow> year start_date | Some ey \<Rightarrow> ey)]
                  Map.empty of
             Inl e \<Rightarrow> Inl e
           | Inr yearly_rainfall \<Rightarrow> Inr (yearly_rainfall, is_final)))"

subsection \<open>The date range of a period\<close>

text \<open>
  Modelled from the spec: \<^verbatim>\<open>listify_period\<close> of \<^verbatim>\<open>dweather_client/utils.py\<close> is not
  among the sources. Section 4.1 of the spec (DateRangeResolver) gives every calendar
  date from the start to the end, both included, in ascending order, and
  InvalidRangeError when the end is before the start. The theorems take
  \<^verbatim>\<open>listify_period\<close> as a parameter; this definition instantiates it in the examples.
\<close>

definition days_before_year :: "int \<Rightarrow> int" where
  "days_before_year y = 365 * (y - 1) + (y - 1) div 4 - (y - 1) div 100 + (y - 1) div 400"

definition toordinal :: "date \<Rightarrow> int" where
  "toordinal d =
     days_before_year (year d) + sum_list (map (days_in_month (year d)) [1 .. month d - 1]) + day d"

definition next_day :: "date \<Rightarrow> date" where
  "next_day d =
     (if day d < days_in_month (year d) (month d) then d\<lparr>day := day d + 1\<rparr>
      else if month d < 12 then d\<lparr>month := month d + 1, day := 1\<rparr>
      else \<lparr>year = year d + 1, month = 1, day = 1\<rparr>)"

fun dates_from :: "date \<Rightarrow> nat \<Rightarrow> date list" where
  "dates_from d 0 = []"
| "dates_from d (Suc n) = d # dates_from (next_day d) n"

definition listify_dates :: "date \<Rightarrow> date \<Rightarrow> error + date list" where
  "listify_dates start_date end_date =
     (if date_less end_date start_date then Inl InvalidRangeError
      else Inr (dates_from start_date (nat (toordinal end_date - toordinal start_date + 1))))"

subsection \<open>Example data\<close>

text \<open>
  A series with the first ten days of June of 2000, 2001 and 2002 and the twelve days
  from 25 December to 5 January after 2000 and after 2001. The value of a day is its day
  of the month plus 100 for every year after 2000, so that the same term has a different
  total in every year. The example externals serve this series for every coordinate and
  dataset.
\<close>

definition day_values :: "date list \<Rightarrow> series" where
  "day_values dates = map (\<lambda>d. (d, real_of_int (day d + 100 * (year d - 2000)))) dates"

definition final_series :: series where
  "final_series =
     day_values (dates_from \<lparr>year = 2000, month = 6, day = 1\<rparr> 10 @
                 dates_from \<lparr>year = 2001, month = 6, day = 1\<rparr> 10 @
                 dates_from \<lparr>year = 2002, month = 6, day = 1\<rparr> 10 @
                 dates_from \<lparr>year = 2000, month = 12, day = 25\<rparr> 12 @
                 dates_from \<lparr>year = 2001, month = 12, day = 25\<rparr> 12)"

definition example_externals :: "(real, string) externals" where
  "example_externals =
     \<lparr>get_rainfall_dict = (\<lambda>lat lon dataset. Inr final_series),
      listify_period = listify_dates\<rparr>"

section \<open>The two table operations\<close>

subsection \<open>Tables\<close>

text \<open>
  \<^verbatim>\<open>sum_period_df\<close> and \<^verbatim>\<open>avg_period_df\<close> work on a pandas DataFrame with a daily
  index. A frame is its column names and its rows, each row an index label and the
  cells of the row by column name. A cell is a float or NaN: \<open>None\<close> is NaN, and the
  floats are exact reals as before. Columns that do not hold numbers are outside the
  model.
\<close>

type_synonym cell = "real option"

record 'i dataframe =
  columns :: "string list"
  rows :: "('i \<times> (string \<times> cell) list) list"

text \<open>\<^verbatim>\<open>df[peril]\<close>: the cells of a column, row by row; \<^verbatim>\<open>KeyError\<close> (the spec's
  MissingColumnError) when the frame has no such column. A cell a row does not give is NaN.\<close>

definition getitem :: "'i dataframe \<Rightarrow> string \<Rightarrow> error + cell list" where
  "getitem df peril =
     (if peril \<in> set (columns df)
      then Inr (map (\<lambda>(i, r). case map_of r peril of None \<Rightarrow> None | Some c \<Rightarrow> c) (rows df))
      else Inl (ColumnKeyError peril))"

text \<open>
  \<^verbatim>\<open>Series.sum()\<close> and \<^verbatim>\<open>Series.mean()\<close> of pandas, with their default
  \<^verbatim>\<open>skipna=True\<close> and \<^verbatim>\<open>min_count=0\<close>: NaN cells are left out; the sum of no values is
  0 and their mean is NaN (pandas 0.22 and later).
\<close>

definition series_sum :: "cell list \<Rightarrow> cell" where
  "series_sum col = Some (sum_list (List.map_filter (\<lambda>c. c) col))"

definition series_mean :: "cell list \<Rightarrow> cell" where
  "series_mean col =
     (if List.map_filter (\<lambda>c. c) col = [] then None
      else Some (sum_list (List.map_filter (\<lambda>c. c) col) /
                 real (length (List.map_filter (\<lambda>c. c) col))))"

text \<open>\<^verbatim>\<open>str\<close> of an integer: its decimal digits, after a minus sign when negative.\<close>

fun str_nat :: "nat \<Rightarrow> string" where
  "str_nat n =
     (if n < 10 then [''0123456789'' ! n]
      else str_nat (n div 10) @ [''0123456789'' ! (n mod 10)])"

declare str_nat.simps [simp del]

definition str_int :: "int \<Rightarrow> string" where
  "str_int i = (if i < 0 then CHR ''-'' # str_nat (nat (- i)) else str_nat (nat i))"

text \<open>Lines 119 to 124, and 153 to 158: the two labels of the window of one year.\<close>

definition period_labels :: "date \<Rightarrow> date \<Rightarrow> int \<Rightarrow> string \<times> string" where
  "period_labels ps pe y =
     (if year ps < year pe
      then (str_int y @ ''-'' @ str_int (month ps) @ ''-'' @ str_int (day ps),
            str_int (y + 1) @ ''-'' @ str_int (month pe) @ ''-'' @ str_int (day pe))
      else (str_int y @ ''-'' @ str_int (month ps) @ ''-'' @ str_int (day ps),
            str_int y @ ''-'' @ str_int (month pe) @ ''-'' @ str_int (day pe)))"

subsection \<open>sum\_period\_df and avg\_period\_df\<close>

text \<open>
  The two functions are the same loop with a different reduction of the column
  (\<^verbatim>\<open>.sum()\<close> on line 128, \<^verbatim>\<open>.mean()\<close> on line 162), which is the parameter
  \<open>reduce\<close> here. The slicing \<^verbatim>\<open>newdf[left:right]\<close> with two strings is pandas' and
  depends on the index of the frame: it is the parameter \<open>slice\<close>, which returns the
  rows of the window or raises. The arrays \<^verbatim>\<open>years\<close> and \<^verbatim>\<open>sums\<close> (or
  \<^verbatim>\<open>avgs\<close>) are the accumulators; \<^verbatim>\<open>np.append\<close> to the float array \<^verbatim>\<open>years\<close>
  turns the year into a float. \<open>year_value\<close> is the value one year appends (lines 119 to
  128 without the append), \<open>period_loop\<close> the loop.
\<close>

definition year_value ::
  "('i dataframe \<Rightarrow> string \<Rightarrow> string \<Rightarrow> error + 'i dataframe) \<Rightarrow> (cell list \<Rightarrow> cell) \<Rightarrow>
     'i dataframe \<Rightarrow> date \<Rightarrow> date \<Rightarrow> string \<Rightarrow> int \<Rightarrow> error + cell" where
  "year_value slice reduce df ps pe peril y =
     (case slice df (fst (period_labels ps pe y)) (snd (period_labels ps pe y)) of
        Inl e \<Rightarrow> Inl e
      | Inr sumChunk \<Rightarrow>
          (case getitem sumChunk peril of
             Inl e \<Rightarrow> Inl e
           | Inr col \<Rightarrow> Inr (reduce col)))"

fun period_loop ::
  "('i dataframe \<Rightarrow> string \<Rightarrow> string \<Rightarrow> error + 'i dataframe) \<Rightarrow> (cell list \<Rightarrow> cell) \<Rightarrow>
     'i dataframe \<Rightarrow> date \<Rightarrow> date \<Rightarrow> string \<Rightarrow> int list \<Rightarrow> real list \<Rightarrow> cell list \<Rightarrow>
     error + (real list \<times> cell list)" where
  "period_loop slice reduce df ps pe peril [] years vals = Inr (years, vals)"
| "period_loop slice reduce df ps pe peril (y # ys) years vals =
     (case year_value slice reduce df ps pe peril y of
        Inl e \<Rightarrow> Inl e
      | Inr v \<Rightarrow>
          period_loop slice reduce df ps pe peril ys (years @ [real_of_int y]) (vals @ [v]))"

text \<open>\<^verbatim>\<open>pd.DataFrame({'year': years, 'value': vals}).set_index("year")\<close>: one row for
  each year, with the year as its index label and the column \<^verbatim>\<open>value\<close>.\<close>

definition year_frame :: "real list \<Rightarrow> cell list \<Rightarrow> real dataframe" where
  "year_frame years vals =
     \<lparr>columns = [''value''], rows = map (\<lambda>(y, v). (y, [(''value'', v)])) (zip years vals)\<rparr>"

definition sum_period_df ::
  "('i dataframe \<Rightarrow> string \<Rightarrow> string \<Rightarrow> error + 'i dataframe) \<Rightarrow> 'i dataframe \<Rightarrow> date \<Rightarrow> date \<Rightarrow>
     int \<Rightarrow> string \<Rightarrow> error + real dataframe" where
  "sum_period_df slice df ps pe yrs peril =
     (case period_loop slice series_sum df ps pe peril [year ps - yrs .. year ps - 1] [] [] of
        Inl e \<Rightarrow> Inl e
      | Inr (years, vals) \<Rightarrow> Inr (year_frame years vals))"

definition avg_period_df ::
  "('i dataframe \<Rightarrow> string \<Rightarrow> string \<Rightarrow> error + 'i dataframe) \<Rightarrow> 'i dataframe \<Rightarrow> date \<Rightarrow> date \<Rightarrow>
     int \<Rightarrow> string \<Rightarrow> error + real dataframe" where
  "avg_period_df slice df ps pe yrs peril =
     (case period_loop slice series_mean df ps pe peril [year ps - yrs .. year ps - 1] [] [] of
        Inl e \<Rightarrow> Inl e
      | Inr (years, vals) \<Rightarrow> Inr (year_frame years vals))"

subsection \<open>An example table\<close>

text \<open>
  pandas is not part of the repository. For the examples, slicing is the inclusive window
  of section 4.5 of the spec on a frame indexed by dates: both labels are read as
  year-month-day, and the rows from the first date to the second are kept; a label that
  is not a date raises. The example frame has the column \<^verbatim>\<open>rain\<close> and the first
  three days of June 2019, with the values 4, NaN and 8.
\<close>

definition digit_of :: "char \<Rightarrow> nat option" where
  "digit_of c =
     map_of [(CHR ''0'', 0), (CHR ''1'', 1), (CHR ''2'', 2), (CHR ''3'', 3), (CHR ''4'', 4),
             (CHR ''5'', 5), (CHR ''6'', 6), (CHR ''7'', 7), (CHR ''8'', 8), (CHR ''9'', 9)] c"

fun parse_digits :: "string \<Rightarrow> nat \<Rightarrow> nat option" where
  "parse_digits [] acc = Some acc"
| "parse_digits (c # cs) acc =
     (case digit_of c of None \<Rightarrow> None | Some d \<Rightarrow> parse_digits cs (10 * acc + d))"

fun split_dash :: "string \<Rightarrow> string \<Rightarrow> string list" where
  "split_dash [] part = [part]"
| "split_dash (c # cs) part =
     (if c = CHR ''-'' then part # split_dash cs [] else split_dash cs (part @ [c]))"

definition parse_date :: "string \<Rightarrow> date option" where
  "parse_date label =
     (case split_dash label [] of
        [a, b, c] \<Rightarrow>
          (if a = [] \<or> b = [] \<or> c = [] then None
           else (case (parse_digits a 0, parse_digits b 0, parse_digits c 0) of
                   (Some y, Some m, Some d) \<Rightarrow>
                     (if valid_date \<lparr>year = int y, month = int m, day = int d\<rparr>
                      then Some \<lparr>year = int y, month = int m, day = int d\<rparr> else None)
                 | _ \<Rightarrow> None))
      | _ \<Rightarrow> None)"

definition window_slice :: "date dataframe \<Rightarrow> string \<Rightarrow> string \<Rightarrow> error + date dataframe" where
  "window_slice df left right =
     (case (parse_date left, parse_date right) of
        (Some a, Some b) \<Rightarrow>
          Inr (df\<lparr>rows := filter (\<lambda>(i, r). date_le a i \<and> date_le i b) (rows df)\<rparr>)
      | _ \<Rightarrow> Inl ValueError)"

definition example_frame :: "date dataframe" where
  "example_frame =
     \<lparr>columns = [''rain''],
      rows = [(\<lparr>year = 2019, month = 6, day = 1\<rparr>, [(''rain'', Some 4)]),
              (\<lparr>year = 2019, month = 6, day = 2\<rparr>, [(''rain'', None)]),
              (\<lparr>year = 2019, month = 6, day = 3\<rparr>, [(''rain'', Some 8)])]\<rparr>"

section \<open>Properties of the rainfall operations\<close>

subsection \<open>Auxiliary facts\<close>

lemma lookup_each_Inr:
  "lookup_each s f dates = Inr vs \<Longrightarrow>
     set dates \<subseteq> fst ` set s \<and> vs = map (\<lambda>d. f (the (map_of s d))) dates"
proof (induction dates arbitrary: vs)
  case Nil
  then show ?case by simp
next
  case (Cons d dates)
  then show ?case
    by (auto split: option.splits sum.splits simp: map_of_eq_None_iff dest: map_of_SomeD
        intro: rev_image_eqI)
qed

lemma lookup_each_ok:
  "set dates \<subseteq> fst ` set s \<Longrightarrow>
     lookup_each s f dates = Inr (map (\<lambda>d. f (the (map_of s d))) dates)"
proof (induction dates)
  case Nil
  then show ?case by simp
next
  case (Cons d dates)
  then have "map_of s d \<noteq> None" by (simp add: map_of_eq_None_iff)
  with Cons show ?case by (auto split: option.splits)
qed

lemma lookup_each_missing:
  "\<not> set dates \<subseteq> fst ` set s \<Longrightarrow>
     \<exists>d. d \<in> set dates \<and> d \<notin> fst ` set s \<and> lookup_each s f dates = Inl (KeyError d)"
proof (induction dates)
  case Nil
  then show ?case by simp
next
  case (Cons d dates)
  show ?case
  proof (cases "map_of s d")
    case None
    then have "d \<notin> fst ` set s" by (simp add: map_of_eq_None_iff)
    with None show ?thesis by auto
  next
    case (Some v)
    then have "d \<in> fst ` set s" by (metis map_of_eq_None_iff option.distinct(1))
    with Cons.prems have "\<not> set dates \<subseteq> fst ` set s" by auto
    from Cons.IH [OF this] obtain d' where
      "d' \<in> set dates" "d' \<notin> fst ` set s" "lookup_each s f dates = Inl (KeyError d')"
      by blast
    with Some show ?thesis by auto
  qed
qed

lemma lookup_each_cap_le:
  "lookup_each s (\<lambda>v. min v c) dates = Inr vs \<Longrightarrow> sum_list vs \<le> c * real (length vs)"
proof (induction dates arbitrary: vs)
  case Nil
  then show ?case by simp
next
  case (Cons d dates)
  then show ?case
    by (auto split: option.splits sum.splits simp: algebra_simps)
qed


lemma year_loop_Inr:
  "year_loop env s st e cap ys acc = Inr m \<Longrightarrow>
     dom m = dom acc \<union> set ys \<and>
     (\<forall>y\<in>set ys. year_entry env s st e cap y = Inr (the (m y))) \<and>
     (\<forall>y. y \<notin> set ys \<longrightarrow> m y = acc y)"
proof (induction ys arbitrary: acc)
  case Nil
  then show ?case by simp
next
  case (Cons y ys)
  from Cons.prems obtain v where
    v: "year_entry env s st e cap y = Inr v" and
    rest: "year_loop env s st e cap ys (acc(y \<mapsto> v)) = Inr m"
    by (auto split: sum.splits)
  from Cons.IH [OF rest] have
    d: "dom m = dom (acc(y \<mapsto> v)) \<union> set ys" and
    e: "\<forall>z\<in>set ys. year_entry env s st e cap z = Inr (the (m z))" and
    o: "\<forall>z. z \<notin> set ys \<longrightarrow> m z = (acc(y \<mapsto> v)) z"
    by blast+
  have "year_entry env s st e cap y = Inr (the (m y))"
  proof (cases "y \<in> set ys")
    case True
    with e show ?thesis by blast
  next
    case False
    with o have "m y = Some v" by simp
    with v show ?thesis by simp
  qed
  with d e o show ?case by auto
qed

lemma year_loop_total:
  "(\<forall>y\<in>set ys. \<exists>v. year_entry env s st e cap y = Inr v) \<Longrightarrow>
     \<exists>m. year_loop env s st e cap ys acc = Inr m"
  by (induction ys arbitrary: acc) auto

lemma year_loop_fails:
  "y \<in> set ys \<Longrightarrow> year_entry env s st e cap y = Inl x \<Longrightarrow>
     \<exists>x'. year_loop env s st e cap ys acc = Inl x'"
  by (induction ys arbitrary: acc) (auto split: sum.splits)

lemma year_loop_first_error:
  "year_loop env s st e cap ys acc = Inl x \<Longrightarrow>
     \<exists>y\<in>set ys. year_entry env s st e cap y = Inl x"
  by (induction ys arbitrary: acc) (auto split: sum.splits)


lemma rain_total_ok:
  "set dates \<subseteq> fst ` set s \<Longrightarrow>
     rain_total s cap dates =
       Inr (sum_list (map (\<lambda>d. if truthy cap then min (the (map_of s d)) (the cap)
                                  else the (map_of s d)) dates), length dates)"
  by (simp add: rain_total_def lookup_each_ok)

lemma rain_total_missing:
  assumes "\<not> set dates \<subseteq> fst ` set s"
  shows "\<exists>d. d \<in> set dates \<and> d \<notin> fst ` set s \<and> rain_total s cap dates = Inl (KeyError d)"
proof (cases "truthy cap")
  case True
  from lookup_each_missing [OF assms, of "\<lambda>v. min v (the cap)"] True show ?thesis
    by (auto simp: rain_total_def)
next
  case False
  from lookup_each_missing [OF assms, of "\<lambda>v. v"] False show ?thesis
    by (auto simp: rain_total_def)
qed

lemma rain_total_cap_le:
  assumes "c \<noteq> 0" and "rain_total s (Some c) dates = Inr (t, n)"
  shows "t \<le> c * real n"
proof -
  from assms obtain vs where
    "lookup_each s (\<lambda>v. min v c) dates = Inr vs" "t = sum_list vs" "n = length vs"
    by (auto simp: rain_total_def truthy_def split: sum.splits)
  then show ?thesis using lookup_each_cap_le by blast
qed

lemma rain_total_zero_cap: "rain_total s (Some 0) dates = rain_total s None dates"
  by (simp add: rain_total_def truthy_def)


lemma build_Inr:
  assumes "build_historical_rainfall_dict env lat lon ds sd ed cap sy ey up fr = Inr (m, f)"
  shows "\<exists>s e'. resolve_series env lat lon ds ed up fr = Inr (s, e', f) \<and>
           year_loop env s sd e' cap
             [sy .. (case ey of None \<Rightarrow> year sd | Some z \<Rightarrow> z)] Map.empty = Inr m"
  using assms
  by (auto simp: build_historical_rainfall_dict_def split: sum.splits prod.splits)

lemma build_resolved:
  assumes "resolve_series env lat lon ds ed up fr = Inr (s, e', f)"
  shows "build_historical_rainfall_dict env lat lon ds sd ed cap sy ey up fr =
           (case year_loop env s sd e' cap
                   [sy .. (case ey of None \<Rightarrow> year sd | Some z \<Rightarrow> z)] Map.empty of
              Inl e \<Rightarrow> Inl e | Inr m \<Rightarrow> Inr (m, f))"
  using assms by (simp add: build_historical_rainfall_dict_def)

lemma sum_period_resolved:
  assumes "resolve_series env lat lon ds ed up fr = Inr (s, e', f)"
  shows "sum_period_rainfall env lat lon ds sd ed cap up fr =
           (case listify_period env sd e' of
              Inl e \<Rightarrow> Inl e
            | Inr dates \<Rightarrow>
                (case rain_total s cap dates of
                   Inl e \<Rightarrow> Inl e | Inr (t, n) \<Rightarrow> Inr (t, n, f)))"
  using assms by (simp add: sum_period_rainfall_def)

lemma resolve_plain:
  "resolve_series env lat lon ds ed False fr = Inr (s, e', f) \<Longrightarrow> f \<and> e' = ed"
  by (auto simp: resolve_series_def split: sum.splits)

lemma resolve_use_prelim: "resolve_series env lat lon ds ed True fr = Inl NameError"
  by (simp add: resolve_series_def get_rev_rainfall_dict_def)

lemma resolve_Inr:
  "resolve_series env lat lon ds ed up fr = Inr (s, e', f) \<Longrightarrow>
     \<not> up \<and> get_rainfall_dict env lat lon ds = Inr s \<and> e' = ed \<and> f"
  by (cases up) (auto simp: resolve_series_def get_rev_rainfall_dict_def split: sum.splits)

lemma resolve_fetched:
  "get_rainfall_dict env lat lon ds = Inr s \<Longrightarrow>
     resolve_series env lat lon ds ed False fr = Inr (s, ed, True)"
  by (simp add: resolve_series_def)

lemma year_entry_Inr:
  assumes "year_entry env s sd e' cap y = Inr v"
  shows "\<exists>dates. valid_date (sd\<lparr>year := y\<rparr>) \<and>
           valid_date (e'\<lparr>year := y + (year e' - year sd)\<rparr>) \<and>
           listify_period env (sd\<lparr>year := y\<rparr>) (e'\<lparr>year := y + (year e' - year sd)\<rparr>) = Inr dates \<and>
           rain_total s cap dates = Inr v"
  using assms
  by (auto simp: year_entry_def year_term_def replace_year_def split: sum.splits if_splits)

lemma year_entry_zero_cap:
  "year_entry env s sd e' (Some 0) y = year_entry env s sd e' None y"
  by (simp add: year_entry_def rain_total_zero_cap split: sum.splits)

lemma year_loop_zero_cap:
  "year_loop env s sd e' (Some 0) ys acc = year_loop env s sd e' None ys acc"
  by (induction ys arbitrary: acc) (simp_all add: year_entry_zero_cap split: sum.splits)

lemma replace_year_valid:
  assumes "valid_date d"
  shows "replace_year d y =
           (if 1 \<le> y \<and> y \<le> 9999 \<and> (is_leap y \<or> \<not> (month d = 2 \<and> day d = 29))
            then Inr (d\<lparr>year := y\<rparr>) else Inl ValueError)"
  using assms by (auto simp: replace_year_def valid_date_def days_in_month_def split: if_splits)

lemma year_entry_term:
  "year_term env sd e' y = Inr dates \<Longrightarrow> year_entry env s sd e' cap y = rain_total s cap dates"
  by (simp add: year_entry_def)

lemma build_fails_in_year:
  assumes "y \<in> {sy .. (case ey of None \<Rightarrow> year sd | Some z \<Rightarrow> z)}"
    and "\<And>s e' f. resolve_series env lat lon ds ed up fr = Inr (s, e', f) \<Longrightarrow>
           year_term env sd e' y = Inl x"
  shows "\<exists>e. build_historical_rainfall_dict env lat lon ds sd ed cap sy ey up fr = Inl e"
proof (cases "resolve_series env lat lon ds ed up fr")
  case (Inl e)
  then show ?thesis by (simp add: build_historical_rainfall_dict_def)
next
  case (Inr r)
  obtain s e' f where r: "r = (s, e', f)" by (cases r)
  with Inr assms(2) have "year_entry env s sd e' cap y = Inl x"
    by (simp add: year_entry_def)
  with assms(1) have "\<exists>x'. year_loop env s sd e' cap
      [sy .. (case ey of None \<Rightarrow> year sd | Some z \<Rightarrow> z)] Map.empty = Inl x'"
    by (intro year_loop_fails [of y]) auto
  with Inr r show ?thesis by (auto simp: build_resolved)
qed

lemma cap_bounds_total:
  assumes "c \<noteq> 0"
  shows "(sum_period_rainfall env lat lon ds sd ed (Some c) up fr = Inr (t, n, f) \<longrightarrow>
            t \<le> c * real n) \<and>
         (build_historical_rainfall_dict env lat lon ds sd ed (Some c) sy ey up fr = Inr (m, f') \<and>
          m y = Some (t', n') \<longrightarrow> t' \<le> c * real n')"
proof (intro conjI impI)
  assume "sum_period_rainfall env lat lon ds sd ed (Some c) up fr = Inr (t, n, f)"
  then obtain s dates where "rain_total s (Some c) dates = Inr (t, n)"
    by (auto simp: sum_period_rainfall_def split: sum.splits prod.splits)
  with assms show "t \<le> c * real n" by (rule rain_total_cap_le)
next
  assume a: "build_historical_rainfall_dict env lat lon ds sd ed (Some c) sy ey up fr = Inr (m, f') \<and>
          m y = Some (t', n')"
  from build_Inr [of env lat lon ds sd ed "Some c" sy ey up fr m f'] a obtain s e' where
    l: "year_loop env s sd e' (Some c)
          [sy .. (case ey of None \<Rightarrow> year sd | Some z \<Rightarrow> z)] Map.empty = Inr m"
    by blast
  from year_loop_Inr [OF l] a have "year_entry env s sd e' (Some c) y = Inr (t', n')"
    by (cases "y \<in> set [sy .. (case ey of None \<Rightarrow> year sd | Some z \<Rightarrow> z)]") auto
  then obtain dates where "rain_total s (Some c) dates = Inr (t', n')"
    by (auto simp: year_entry_def split: sum.splits)
  with assms show "t' \<le> c * real n'" by (rule rain_total_cap_le)
qed

lemma rain_total_Inr:
  assumes "rain_total s cap dates = Inr v"
  shows "set dates \<subseteq> fst ` set s \<and>
         v = (sum_list (map (\<lambda>d. if truthy cap then min (the (map_of s d)) (the cap)
                                   else the (map_of s d)) dates), length dates)"
proof (cases "set dates \<subseteq> fst ` set s")
  case True
  from rain_total_ok [OF True, of cap] assms True show ?thesis by simp
next
  case False
  from rain_total_missing [OF False, of cap] assms show ?thesis by auto
qed

lemma year_entry_projected:
  assumes "year_entry env s sd ed cap y = Inr v"
  shows "\<exists>dates. valid_date (sd\<lparr>year := y\<rparr>) \<and>
           valid_date (ed\<lparr>year := y + (year ed - year sd)\<rparr>) \<and>
           listify_period env (sd\<lparr>year := y\<rparr>) (ed\<lparr>year := y + (year ed - year sd)\<rparr>) = Inr dates \<and>
           set dates \<subseteq> fst ` set s \<and>
           v = (sum_list (map (\<lambda>d. if truthy cap then min (the (map_of s d)) (the cap)
                                     else the (map_of s d)) dates), length dates)"
proof -
  from year_entry_Inr [OF assms] obtain dates where
    d: "valid_date (sd\<lparr>year := y\<rparr>)" "valid_date (ed\<lparr>year := y + (year ed - year sd)\<rparr>)"
       "listify_period env (sd\<lparr>year := y\<rparr>) (ed\<lparr>year := y + (year ed - year sd)\<rparr>) = Inr dates"
       "rain_total s cap dates = Inr v"
    by blast
  from rain_total_Inr [OF d(4)] d(1-3) show ?thesis by blast
qed

lemma year_entry_returns:
  assumes "valid_date (sd\<lparr>year := y\<rparr>)"
    and "valid_date (ed\<lparr>year := y + (year ed - year sd)\<rparr>)"
    and "listify_period env (sd\<lparr>year := y\<rparr>) (ed\<lparr>year := y + (year ed - year sd)\<rparr>) = Inr dates"
    and "set dates \<subseteq> fst ` set s"
  shows "year_entry env s sd ed cap y =
           Inr (sum_list (map (\<lambda>d. if truthy cap then min (the (map_of s d)) (the cap)
                                     else the (map_of s d)) dates), length dates)"
  using assms by (simp add: year_entry_def year_term_def replace_year_def rain_total_ok)

lemma year_loop_map:
  "(\<forall>y\<in>set ys. year_entry env s sd ed cap y = Inr (g y)) \<Longrightarrow>
     year_loop env s sd ed cap ys acc = Inr (\<lambda>y. if y \<in> set ys then Some (g y) else acc y)"
proof (induction ys arbitrary: acc)
  case Nil
  then show ?case by simp
next
  case (Cons a ys)
  then have "year_loop env s sd ed cap ys (acc(a \<mapsto> g a)) =
      Inr (\<lambda>y. if y \<in> set ys then Some (g y) else (acc(a \<mapsto> g a)) y)"
    by simp
  moreover have "(\<lambda>y. if y \<in> set ys then Some (g y) else (acc(a \<mapsto> g a)) y) =
      (\<lambda>y. if y \<in> set (a # ys) then Some (g y) else acc y)"
    by auto
  ultimately show ?case using Cons.prems by simp
qed

lemma build_returns:
  assumes "get_rainfall_dict env lat lon ds = Inr s"
    and "\<forall>y\<in>{sy .. (case ey of None \<Rightarrow> year sd | Some z \<Rightarrow> z)}.
           year_entry env s sd ed cap y = Inr (g y)"
  shows "build_historical_rainfall_dict env lat lon ds sd ed cap sy ey False fr =
           Inr (\<lambda>y. if y \<in> {sy .. (case ey of None \<Rightarrow> year sd | Some z \<Rightarrow> z)}
                     then Some (g y) else None, True)"
proof -
  have "year_loop env s sd ed cap [sy .. (case ey of None \<Rightarrow> year sd | Some z \<Rightarrow> z)] Map.empty =
      Inr (\<lambda>y. if y \<in> set [sy .. (case ey of None \<Rightarrow> year sd | Some z \<Rightarrow> z)]
                then Some (g y) else Map.empty y)"
    using assms(2) by (intro year_loop_map) simp
  then show ?thesis
    by (simp add: build_resolved [OF resolve_fetched [OF assms(1)]])
qed

lemma build_Inr_fetched:
  assumes "build_historical_rainfall_dict env lat lon ds sd ed cap sy ey up fr = Inr (m, f)"
  shows "\<exists>s. get_rainfall_dict env lat lon ds = Inr s \<and> \<not> up \<and> f \<and>
           year_loop env s sd ed cap
             [sy .. (case ey of None \<Rightarrow> year sd | Some z \<Rightarrow> z)] Map.empty = Inr m"
proof -
  from build_Inr [OF assms] obtain s e' where
    r: "resolve_series env lat lon ds ed up fr = Inr (s, e', f)" and
    l: "year_loop env s sd e' cap
          [sy .. (case ey of None \<Rightarrow> year sd | Some z \<Rightarrow> z)] Map.empty = Inr m"
    by blast
  from resolve_Inr [OF r] l show ?thesis by auto
qed

subsection \<open>The example data, evaluated\<close>

lemmas example_defs =
  example_externals_def final_series_def day_values_def listify_dates_def
  date_less_def toordinal_def days_before_year_def next_day_def days_in_month_def is_leap_def
  valid_date_def replace_year_def

lemmas operation_defs =
  sum_period_rainfall_def build_historical_rainfall_dict_def resolve_series_def rain_total_def
  truthy_def year_entry_def year_term_def

lemma upto_from_one: "[1 .. j] = (if 1 \<le> j then 1 # [2 .. j] else [])"
  by (simp add: upto.simps)

lemma june_2000:
  "listify_dates \<lparr>year = 2000, month = 6, day = 1\<rparr> \<lparr>year = 2000, month = 6, day = 10\<rparr> =
     Inr (dates_from \<lparr>year = 2000, month = 6, day = 1\<rparr> 10)"
  by (simp add: listify_dates_def date_less_def toordinal_def days_before_year_def)

lemma example_plain:
  "resolve_series example_externals lat lon ds ed False fr = Inr (final_series, ed, True)"
  by (simp add: resolve_series_def example_externals_def)

lemma example_listify: "listify_period example_externals = listify_dates"
  by (simp add: example_externals_def)

lemma sum_june_2000:
  "sum_period_rainfall example_externals 0 0 ''chirps'' \<lparr>year = 2000, month = 6, day = 1\<rparr>
     \<lparr>year = 2000, month = 6, day = 10\<rparr> None False (None :: string option) = Inr (55, 10, True)"
  by (simp add: operation_defs example_defs eval_nat_numeral)

lemma build_june:
  "build_historical_rainfall_dict example_externals 0 0 ''chirps''
     \<lparr>year = 2003, month = 6, day = 1\<rparr> \<lparr>year = 2003, month = 6, day = 10\<rparr> None 2000 (Some 2002)
     False (None :: string option) = Inr ([2000 \<mapsto> (55, 10), 2001 \<mapsto> (1055, 10), 2002 \<mapsto> (2055, 10)], True)"
  by (simp add: operation_defs example_defs eval_nat_numeral)

lemma build_june_2000:
  "build_historical_rainfall_dict example_externals 0 0 ''chirps''
     \<lparr>year = 2000, month = 6, day = 1\<rparr> \<lparr>year = 2000, month = 6, day = 10\<rparr> None 2000 (Some 2002)
     False (None :: string option) = Inr ([2000 \<mapsto> (55, 10), 2001 \<mapsto> (1055, 10), 2002 \<mapsto> (2055, 10)], True)"
  by (simp add: operation_defs example_defs eval_nat_numeral)

lemma build_crossing:
  "build_historical_rainfall_dict example_externals 0 0 ''chirps''
     \<lparr>year = 2005, month = 12, day = 25\<rparr> \<lparr>year = 2006, month = 1, day = 5\<rparr> None 2000 (Some 2001)
     False (None :: string option) = Inr ([2000 \<mapsto> (711, 12), 2001 \<mapsto> (1911, 12)], True)"
  by (simp add: operation_defs example_defs upto_from_one eval_nat_numeral)

lemma june_9_to_11:
  "listify_dates \<lparr>year = y, month = 6, day = 9\<rparr> \<lparr>year = y, month = 6, day = 11\<rparr> =
     Inr [\<lparr>year = y, month = 6, day = 9\<rparr>, \<lparr>year = y, month = 6, day = 10\<rparr>,
          \<lparr>year = y, month = 6, day = 11\<rparr>]"
  by (simp add: listify_dates_def date_less_def toordinal_def next_day_def days_in_month_def
      eval_nat_numeral)

lemma final_series_keys:
  "\<lparr>year = 2000, month = 6, day = 9\<rparr> \<in> fst ` set final_series \<and>
   \<lparr>year = 2000, month = 6, day = 10\<rparr> \<in> fst ` set final_series \<and>
   \<lparr>year = 2000, month = 6, day = 11\<rparr> \<notin> fst ` set final_series"
  by (simp add: example_defs eval_nat_numeral)

lemma length_dates_from: "length (dates_from d n) = n"
  by (induction n arbitrary: d) simp_all

lemma crossing_terms:
  "listify_dates \<lparr>year = 2000, month = 12, day = 25\<rparr> \<lparr>year = 2001, month = 1, day = 5\<rparr> =
     Inr (dates_from \<lparr>year = 2000, month = 12, day = 25\<rparr> 12) \<and>
   listify_dates \<lparr>year = 2001, month = 12, day = 25\<rparr> \<lparr>year = 2002, month = 1, day = 5\<rparr> =
     Inr (dates_from \<lparr>year = 2001, month = 12, day = 25\<rparr> 12)"
  by (simp add: listify_dates_def date_less_def toordinal_def days_before_year_def
      days_in_month_def is_leap_def upto_from_one)

lemma crossing_keys:
  "set (dates_from \<lparr>year = 2000, month = 12, day = 25\<rparr> 12) \<subseteq> fst ` set final_series \<and>
   set (dates_from \<lparr>year = 2001, month = 12, day = 25\<rparr> 12) \<subseteq> fst ` set final_series"
  by (simp add: example_defs eval_nat_numeral)

lemma crossing_totals:
  "sum_list (map (\<lambda>d. if truthy None then min (the (map_of final_series d)) (the None)
                        else the (map_of final_series d))
               (dates_from \<lparr>year = 2000, month = 12, day = 25\<rparr> 12)) = 711 \<and>
   sum_list (map (\<lambda>d. if truthy None then min (the (map_of final_series d)) (the None)
                        else the (map_of final_series d))
               (dates_from \<lparr>year = 2001, month = 12, day = 25\<rparr> 12)) = 1911"
  by (simp add: example_defs truthy_def eval_nat_numeral)

lemma june_terms:
  "listify_dates \<lparr>year = 2000, month = 6, day = 1\<rparr> \<lparr>year = 2000, month = 6, day = 10\<rparr> =
     Inr (dates_from \<lparr>year = 2000, month = 6, day = 1\<rparr> 10) \<and>
   listify_dates \<lparr>year = 2001, month = 6, day = 1\<rparr> \<lparr>year = 2001, month = 6, day = 10\<rparr> =
     Inr (dates_from \<lparr>year = 2001, month = 6, day = 1\<rparr> 10) \<and>
   listify_dates \<lparr>year = 2002, month = 6, day = 1\<rparr> \<lparr>year = 2002, month = 6, day = 10\<rparr> =
     Inr (dates_from \<lparr>year = 2002, month = 6, day = 1\<rparr> 10)"
  by (simp add: listify_dates_def date_less_def toordinal_def days_before_year_def)

lemma june_keys:
  "set (dates_from \<lparr>year = 2000, month = 6, day = 1\<rparr> 10) \<subseteq> fst ` set final_series \<and>
   set (dates_from \<lparr>year = 2001, month = 6, day = 1\<rparr> 10) \<subseteq> fst ` set final_series \<and>
   set (dates_from \<lparr>year = 2002, month = 6, day = 1\<rparr> 10) \<subseteq> fst ` set final_series"
  by (simp add: example_defs eval_nat_numeral)

lemma june_totals:
  "sum_list (map (\<lambda>d. if truthy None then min (the (map_of final_series d)) (the None)
                        else the (map_of final_series d))
               (dates_from \<lparr>year = 2000, month = 6, day = 1\<rparr> 10)) = 55 \<and>
   sum_list (map (\<lambda>d. if truthy None then min (the (map_of final_series d)) (the None)
                        else the (map_of final_series d))
               (dates_from \<lparr>year = 2001, month = 6, day = 1\<rparr> 10)) = 1055 \<and>
   sum_list (map (\<lambda>d. if truthy None then min (the (map_of final_series d)) (the None)
                        else the (map_of final_series d))
               (dates_from \<lparr>year = 2002, month = 6, day = 1\<rparr> 10)) = 2055"
  by (simp add: example_defs truthy_def eval_nat_numeral)

lemma build_june_default:
  "build_historical_rainfall_dict example_externals 0 0 ''chirps''
     \<lparr>year = 2002, month = 6, day = 1\<rparr> \<lparr>year = 2002, month = 6, day = 10\<rparr> None 2000 (Some 2002)
     False (None :: string option) = Inr ([2000 \<mapsto> (55, 10), 2001 \<mapsto> (1055, 10), 2002 \<mapsto> (2055, 10)], True)"
  by (simp add: operation_defs example_defs eval_nat_numeral)

section \<open>Properties of the table operations\<close>

subsection \<open>Auxiliary facts\<close>

lemma period_loop_Inr:
  "period_loop sl red df ps pe peril ys years vals = Inr (years', vals') \<Longrightarrow>
     years' = years @ map real_of_int ys \<and>
     (\<exists>cs. vals' = vals @ cs \<and> list_all2 (\<lambda>y c. year_value sl red df ps pe peril y = Inr c) ys cs)"
proof (induction ys arbitrary: years vals)
  case Nil
  then show ?case by simp
next
  case (Cons y ys)
  from Cons.prems obtain v where
    v: "year_value sl red df ps pe peril y = Inr v" and
    rest: "period_loop sl red df ps pe peril ys (years @ [real_of_int y]) (vals @ [v]) =
             Inr (years', vals')"
    by (auto split: sum.splits)
  from Cons.IH [OF rest] obtain cs where
    "years' = (years @ [real_of_int y]) @ map real_of_int ys"
    "vals' = (vals @ [v]) @ cs"
    "list_all2 (\<lambda>y c. year_value sl red df ps pe peril y = Inr c) ys cs"
    by blast
  with v show ?case by (intro conjI exI [of _ "v # cs"]) simp_all
qed

lemma period_loop_total:
  "(\<forall>y\<in>set ys. \<exists>c. year_value sl red df ps pe peril y = Inr c) \<Longrightarrow>
     \<exists>r. period_loop sl red df ps pe peril ys years vals = Inr r"
  by (induction ys arbitrary: years vals) auto

lemma year_frame_index: "length years = length vals \<Longrightarrow> map fst (rows (year_frame years vals)) = years"
  by (induction years vals rule: list_induct2) (simp_all add: year_frame_def)

lemma year_frame_row:
  "length years = length vals \<Longrightarrow> i < length years \<Longrightarrow>
     (years ! i, [(''value'', vals ! i)]) \<in> set (rows (year_frame years vals))"
  by (force simp: year_frame_def in_set_zip set_zip)

lemma period_df_Inr:
  assumes "(case period_loop sl red df ps pe peril ys [] [] of
              Inl e \<Rightarrow> Inl e | Inr (years, vals) \<Rightarrow> Inr (year_frame years vals)) = Inr out"
  shows "\<exists>cs. out = year_frame (map real_of_int ys) cs \<and>
           list_all2 (\<lambda>y c. year_value sl red df ps pe peril y = Inr c) ys cs"
proof -
  from assms obtain years vals where
    l: "period_loop sl red df ps pe peril ys [] [] = Inr (years, vals)" and
    o: "out = year_frame years vals"
    by (auto split: sum.splits prod.splits)
  from period_loop_Inr [OF l] o show ?thesis by auto
qed

lemma years_index:
  assumes "out = year_frame (map real_of_int [a .. c - 1]) cs"
    and "length cs = length [a .. c - 1]"
  shows "columns out = [''value''] \<and> map fst (rows out) = map real_of_int [a .. c - 1] \<and>
         sorted_wrt (<) (map fst (rows out)) \<and> real_of_int c \<notin> set (map fst (rows out))"
proof -
  have i: "map fst (rows out) = map real_of_int [a .. c - 1]"
    using assms by (simp add: year_frame_index)
  have "sorted_wrt (<) [a .. c - 1]"
    by (simp add: strict_sorted_iff)
  then have s: "sorted_wrt (<) (map real_of_int [a .. c - 1])"
    by (simp add: sorted_wrt_map)
  have n: "real_of_int c \<notin> set (map real_of_int [a .. c - 1])"
    by auto
  have "columns out = [''value'']"
    using assms by (simp add: year_frame_def)
  with i s n show ?thesis by simp
qed

lemma year_value_empty:
  assumes "sl df (fst (period_labels ps pe y)) (snd (period_labels ps pe y)) = Inr chunk"
    and "peril \<in> set (columns chunk)" and "rows chunk = []"
  shows "year_value sl red df ps pe peril y = Inr (red [])"
  using assms by (simp add: year_value_def getitem_def)

lemma year_value_total:
  assumes "sl df (fst (period_labels ps pe y)) (snd (period_labels ps pe y)) = Inr chunk"
    and "peril \<in> set (columns chunk)"
  shows "\<exists>c. year_value sl red df ps pe peril y = Inr c"
  using assms by (simp add: year_value_def getitem_def)

lemma period_df_total:
  assumes "\<forall>y\<in>set ys. \<exists>c. year_value sl red df ps pe peril y = Inr c"
  shows "\<exists>cs. (case period_loop sl red df ps pe peril ys [] [] of
                 Inl e \<Rightarrow> Inl e | Inr (years, vals) \<Rightarrow> Inr (year_frame years vals)) =
               Inr (year_frame (map real_of_int ys) cs) \<and>
              list_all2 (\<lambda>y c. year_value sl red df ps pe peril y = Inr c) ys cs"
proof -
  from period_loop_total [OF assms, of "[]" "[]"] obtain years vals where
    l: "period_loop sl red df ps pe peril ys [] [] = Inr (years, vals)"
    by auto
  from period_loop_Inr [OF l] l show ?thesis by auto
qed

lemma period_df_row:
  assumes "list_all2 (\<lambda>y c. year_value sl red df ps pe peril y = Inr c) ys cs"
    and "y \<in> set ys" and "year_value sl red df ps pe peril y = Inr c"
  shows "(real_of_int y, [(''value'', c)]) \<in> set (rows (year_frame (map real_of_int ys) cs))"
proof -
  from assms(2) obtain i where i: "i < length ys" "ys ! i = y"
    by (auto simp: in_set_conv_nth)
  from assms(1) have len: "length ys = length cs" by (rule list_all2_lengthD)
  from list_all2_nthD [OF assms(1) i(1)] i(2) assms(3) have "cs ! i = c" by simp
  with year_frame_row [of "map real_of_int ys" cs i] len i show ?thesis by simp
qed

subsection \<open>The example table, evaluated\<close>

lemmas table_defs =
  sum_period_df_def avg_period_df_def year_value_def year_frame_def getitem_def series_sum_def
  series_mean_def period_labels_def str_int_def str_nat.simps window_slice_def parse_date_def
  digit_of_def example_frame_def valid_date_def days_in_month_def is_leap_def date_le_def
  date_less_def List.map_filter_simps

lemma sum_example_frame:
  "sum_period_df window_slice example_frame \<lparr>year = 2020, month = 6, day = 1\<rparr>
     \<lparr>year = 2020, month = 6, day = 3\<rparr> 3 ''rain'' =
   Inr \<lparr>columns = [''value''],
        rows = [(2017, [(''value'', Some 0)]), (2018, [(''value'', Some 0)]),
                (2019, [(''value'', Some 12)])]\<rparr>"
  by (simp add: table_defs)

lemma avg_example_frame:
  "avg_period_df window_slice example_frame \<lparr>year = 2020, month = 6, day = 1\<rparr>
     \<lparr>year = 2020, month = 6, day = 3\<rparr> 3 ''rain'' =
   Inr \<lparr>columns = [''value''],
        rows = [(2017, [(''value'', None)]), (2018, [(''value'', None)]),
                (2019, [(''value'', Some 6)])]\<rparr>"
  by (simp add: table_defs)

lemma window_2018:
  "window_slice example_frame ''2018-6-1'' ''2018-6-3'' = Inr \<lparr>columns = [''rain''], rows = []\<rparr>"
  by (simp add: table_defs)

lemma window_2019:
  "window_slice example_frame ''2019-6-1'' ''2019-6-3'' = Inr example_frame"
  by (simp add: table_defs)

lemma labels_example:
  "period_labels \<lparr>year = 2020, month = 6, day = 1\<rparr> \<lparr>year = 2020, month = 6, day = 3\<rparr> 2018 =
     (''2018-6-1'', ''2018-6-3'') \<and>
   period_labels \<lparr>year = 2020, month = 6, day = 1\<rparr> \<lparr>year = 2020, month = 6, day = 3\<rparr> 2019 =
     (''2019-6-1'', ''2019-6-3'')"
  by (simp add: period_labels_def str_int_def str_nat.simps)

section \<open>The claims\<close>

subsection \<open>C1: a call with use\_prelim\<close>

text \<open>
  Claim C1 on the code as it is. Lines 37 to 40 and 76 to 79 are written to move the end
  date to the last key of a series that is not final and lacks it, but the call of
  \<^verbatim>\<open>get_rev_rainfall_dict\<close> before them raises \<^verbatim>\<open>NameError\<close>, since the module never
  binds that name: every call of either operation with \<^verbatim>\<open>use_prelim\<close> set raises, and
  no end date is moved.
\<close>

theorem use_prelim_raises_name_error:
  "sum_period_rainfall env lat lon ds start_date end_date cap True fr = Inl NameError \<and>
   build_historical_rainfall_dict env lat lon ds start_date end_date cap start_year end_year
     True fr = Inl NameError"
  by (simp add: sum_period_rainfall_def build_historical_rainfall_dict_def resolve_use_prelim)

subsection \<open>C2: each year's term is the base term projected onto that year\<close>

text \<open>
  Claim C2. When \<^verbatim>\<open>build_historical_rainfall_dict\<close> returns, the entry of every year
  \<open>y\<close> of the range is the total and the day count over the dates that
  \<^verbatim>\<open>listify_period\<close> gives from the start date with its year replaced by \<open>y\<close> to the
  end date with its year replaced by \<open>y\<close> plus the end date's year minus the start date's
  year; both are calendar dates, and every one of the dates is in the fetched series.
  For a base term that ends in the year after its start, the term of year \<open>y\<close> ends in
  year \<open>y + 1\<close>. Conversely, when the series is fetched and, for every year of the
  range, the two projections are calendar dates and every date between them is in the
  series, the call without \<^verbatim>\<open>use_prelim\<close> returns, and its year map holds exactly these
  totals and counts under the years of the range. (With \<^verbatim>\<open>use_prelim\<close> no call
  returns, see C1.)
\<close>

theorem historical_term_projection:
  "(build_historical_rainfall_dict env lat lon ds start_date end_date cap start_year end_year
      up fr = Inr (m, f) \<and>
    y \<in> {start_year .. (case end_year of None \<Rightarrow> year start_date | Some ey \<Rightarrow> ey)} \<longrightarrow>
      (\<exists>s dates.
         get_rainfall_dict env lat lon ds = Inr s \<and>
         valid_date (start_date\<lparr>year := y\<rparr>) \<and>
         valid_date (end_date\<lparr>year := y + (year end_date - year start_date)\<rparr>) \<and>
         listify_period env (start_date\<lparr>year := y\<rparr>)
           (end_date\<lparr>year := y + (year end_date - year start_date)\<rparr>) = Inr dates \<and>
         set dates \<subseteq> fst ` set s \<and>
         m y = Some (sum_list (map (\<lambda>d. if truthy cap then min (the (map_of s d)) (the cap)
                                           else the (map_of s d)) dates), length dates) \<and>
         (year end_date = year start_date + 1 \<longrightarrow>
            listify_period env (start_date\<lparr>year := y\<rparr>) (end_date\<lparr>year := y + 1\<rparr>) =
              Inr dates))) \<and>
   (get_rainfall_dict env lat lon ds = Inr s' \<and>
    (\<forall>z\<in>{start_year .. (case end_year of None \<Rightarrow> year start_date | Some ey \<Rightarrow> ey)}.
       valid_date (start_date\<lparr>year := z\<rparr>) \<and>
       valid_date (end_date\<lparr>year := z + (year end_date - year start_date)\<rparr>) \<and>
       listify_period env (start_date\<lparr>year := z\<rparr>)
         (end_date\<lparr>year := z + (year end_date - year start_date)\<rparr>) = Inr (terms z) \<and>
       set (terms z) \<subseteq> fst ` set s') \<longrightarrow>
      build_historical_rainfall_dict env lat lon ds start_date end_date cap start_year end_year
        False fr =
        Inr (\<lambda>z. if z \<in> {start_year ..
                              (case end_year of None \<Rightarrow> year start_date | Some ey \<Rightarrow> ey)}
                  then Some (sum_list (map (\<lambda>d. if truthy cap
                                                    then min (the (map_of s' d)) (the cap)
                                                    else the (map_of s' d)) (terms z)),
                             length (terms z))
                  else None, True))"
proof (intro conjI impI)
  let ?ey = "case end_year of None \<Rightarrow> year start_date | Some ey \<Rightarrow> ey"
  assume a: "build_historical_rainfall_dict env lat lon ds start_date end_date cap start_year
      end_year up fr = Inr (m, f) \<and> y \<in> {start_year .. ?ey}"
  from build_Inr_fetched [of env lat lon ds start_date end_date cap start_year end_year up fr m f] a
  obtain s where
    s: "get_rainfall_dict env lat lon ds = Inr s" and
    l: "year_loop env s start_date end_date cap [start_year .. ?ey] Map.empty = Inr m"
    by blast
  from year_loop_Inr [OF l] a have
    d: "y \<in> dom m" and e: "year_entry env s start_date end_date cap y = Inr (the (m y))"
    by auto
  from d obtain v where v: "m y = Some v" by blast
  with e have "year_entry env s start_date end_date cap y = Inr v" by simp
  from year_entry_projected [OF this] obtain dates where
    p: "valid_date (start_date\<lparr>year := y\<rparr>)"
       "valid_date (end_date\<lparr>year := y + (year end_date - year start_date)\<rparr>)"
       "listify_period env (start_date\<lparr>year := y\<rparr>)
          (end_date\<lparr>year := y + (year end_date - year start_date)\<rparr>) = Inr dates"
       "set dates \<subseteq> fst ` set s"
       "v = (sum_list (map (\<lambda>d. if truthy cap then min (the (map_of s d)) (the cap)
                                  else the (map_of s d)) dates), length dates)"
    by blast
  have "year end_date = year start_date + 1 \<longrightarrow>
          listify_period env (start_date\<lparr>year := y\<rparr>) (end_date\<lparr>year := y + 1\<rparr>) = Inr dates"
    using p(3) by auto
  with s p v show "\<exists>s dates.
         get_rainfall_dict env lat lon ds = Inr s \<and>
         valid_date (start_date\<lparr>year := y\<rparr>) \<and>
         valid_date (end_date\<lparr>year := y + (year end_date - year start_date)\<rparr>) \<and>
         listify_period env (start_date\<lparr>year := y\<rparr>)
           (end_date\<lparr>year := y + (year end_date - year start_date)\<rparr>) = Inr dates \<and>
         set dates \<subseteq> fst ` set s \<and>
         m y = Some (sum_list (map (\<lambda>d. if truthy cap then min (the (map_of s d)) (the cap)
                                           else the (map_of s d)) dates), length dates) \<and>
         (year end_date = year start_date + 1 \<longrightarrow>
            listify_period env (start_date\<lparr>year := y\<rparr>) (end_date\<lparr>year := y + 1\<rparr>) =
              Inr dates)"
    by blast
next
  let ?ey = "case end_year of None \<Rightarrow> year start_date | Some ey \<Rightarrow> ey"
  let ?g = "\<lambda>z. (sum_list (map (\<lambda>d. if truthy cap then min (the (map_of s' d)) (the cap)
                                      else the (map_of s' d)) (terms z)), length (terms z))"
  assume a: "get_rainfall_dict env lat lon ds = Inr s' \<and>
    (\<forall>z\<in>{start_year .. ?ey}.
       valid_date (start_date\<lparr>year := z\<rparr>) \<and>
       valid_date (end_date\<lparr>year := z + (year end_date - year start_date)\<rparr>) \<and>
       listify_period env (start_date\<lparr>year := z\<rparr>)
         (end_date\<lparr>year := z + (year end_date - year start_date)\<rparr>) = Inr (terms z) \<and>
       set (terms z) \<subseteq> fst ` set s')"
  then have "\<forall>z\<in>{start_year .. ?ey}. year_entry env s' start_date end_date cap z = Inr (?g z)"
    by (simp add: year_entry_returns)
  with a show "build_historical_rainfall_dict env lat lon ds start_date end_date cap start_year
      end_year False fr = Inr (\<lambda>z. if z \<in> {start_year .. ?ey} then Some (?g z) else None, True)"
    by (intro build_returns) simp_all
qed

theorem historical_term_projection_witness:
  "get_rainfall_dict example_externals 0 0 ''chirps'' = Inr final_series \<and>
   listify_period example_externals \<lparr>year = 2000, month = 12, day = 25\<rparr>
     \<lparr>year = 2001, month = 1, day = 5\<rparr> = Inr (dates_from \<lparr>year = 2000, month = 12, day = 25\<rparr> 12) \<and>
   listify_period example_externals \<lparr>year = 2001, month = 12, day = 25\<rparr>
     \<lparr>year = 2002, month = 1, day = 5\<rparr> = Inr (dates_from \<lparr>year = 2001, month = 12, day = 25\<rparr> 12) \<and>
   build_historical_rainfall_dict example_externals 0 0 ''chirps''
     \<lparr>year = 2005, month = 12, day = 25\<rparr> \<lparr>year = 2006, month = 1, day = 5\<rparr> None 2000 (Some 2001)
     False (None :: string option) = Inr ([2000 \<mapsto> (711, 12), 2001 \<mapsto> (1911, 12)], True) \<and>
   (\<exists>m. build_historical_rainfall_dict example_externals 0 0 ''chirps''
          \<lparr>year = 2005, month = 12, day = 25\<rparr> \<lparr>year = 2006, month = 1, day = 5\<rparr> None 2000
          (Some 2001) False (None :: string option) = Inr (m, True) \<and>
        m 2000 = Some (711, 12) \<and> m 2001 = Some (1911, 12) \<and> m 2002 = None) \<and>
   (\<exists>dates. listify_period example_externals \<lparr>year = 2001, month = 12, day = 25\<rparr>
              \<lparr>year = 2002, month = 1, day = 5\<rparr> = Inr dates \<and>
            set dates \<subseteq> fst ` set final_series \<and> length dates = 12)"
proof -
  let ?sd = "\<lparr>year = 2005, month = 12, day = 25\<rparr>"
  let ?ed = "\<lparr>year = 2006, month = 1, day = 5\<rparr>"
  let ?terms = "\<lambda>z. dates_from \<lparr>year = z, month = 12, day = 25\<rparr> 12"
  note t = historical_term_projection [of example_externals 0 0 "''chirps''" ?sd ?ed None 2000
      "Some 2001" False "None :: string option" "[2000 \<mapsto> (711, 12), 2001 \<mapsto> (1911, 12)]" True 2001
      final_series ?terms]
  have g: "get_rainfall_dict example_externals 0 0 ''chirps'' = Inr final_series"
    by (simp add: example_externals_def)
  have h: "\<forall>z\<in>{2000 .. (case Some 2001 of None \<Rightarrow> year ?sd | Some ey \<Rightarrow> ey)}.
             valid_date (?sd\<lparr>year := z\<rparr>) \<and>
             valid_date (?ed\<lparr>year := z + (year ?ed - year ?sd)\<rparr>) \<and>
             listify_period example_externals (?sd\<lparr>year := z\<rparr>)
               (?ed\<lparr>year := z + (year ?ed - year ?sd)\<rparr>) = Inr (?terms z) \<and>
             set (?terms z) \<subseteq> fst ` set final_series"
  proof
    fix z :: int
    assume "z \<in> {2000 .. (case Some 2001 of None \<Rightarrow> year ?sd | Some ey \<Rightarrow> ey)}"
    then have "z = 2000 \<or> z = 2001" by auto
    then show "valid_date (?sd\<lparr>year := z\<rparr>) \<and>
             valid_date (?ed\<lparr>year := z + (year ?ed - year ?sd)\<rparr>) \<and>
             listify_period example_externals (?sd\<lparr>year := z\<rparr>)
               (?ed\<lparr>year := z + (year ?ed - year ?sd)\<rparr>) = Inr (?terms z) \<and>
             set (?terms z) \<subseteq> fst ` set final_series"
      using crossing_terms crossing_keys
      by (auto simp: example_listify valid_date_def days_in_month_def)
  qed
  from t [THEN conjunct2] g h have
    b: "build_historical_rainfall_dict example_externals 0 0 ''chirps'' ?sd ?ed None 2000
          (Some 2001) False (None :: string option) =
        Inr (\<lambda>z. if z \<in> {2000 .. (case Some 2001 of None \<Rightarrow> year ?sd | Some ey \<Rightarrow> ey)}
                  then Some (sum_list (map (\<lambda>d. if truthy None
                                                    then min (the (map_of final_series d)) (the None)
                                                    else the (map_of final_series d)) (?terms z)),
                             length (?terms z))
                  else None, True)"
    by blast
  have m: "\<exists>m. build_historical_rainfall_dict example_externals 0 0 ''chirps'' ?sd ?ed None 2000
          (Some 2001) False (None :: string option) = Inr (m, True) \<and>
        m 2000 = Some (711, 12) \<and> m 2001 = Some (1911, 12) \<and> m 2002 = None"
    unfolding b using crossing_totals by (simp add: length_dates_from)
  from t [THEN conjunct1] build_crossing have
    "\<exists>s dates. get_rainfall_dict example_externals 0 0 ''chirps'' = Inr s \<and>
       listify_period example_externals (?sd\<lparr>year := 2001\<rparr>)
         (?ed\<lparr>year := 2001 + (year ?ed - year ?sd)\<rparr>) = Inr dates \<and>
       set dates \<subseteq> fst ` set s \<and>
       [2000 \<mapsto> (711, 12), 2001 \<mapsto> (1911, 12)] 2001 =
         Some (sum_list (map (\<lambda>d. if truthy None then min (the (map_of s d)) (the None)
                                   else the (map_of s d)) dates), length dates)"
    by auto
  then have d: "\<exists>dates. listify_period example_externals \<lparr>year = 2001, month = 12, day = 25\<rparr>
              \<lparr>year = 2002, month = 1, day = 5\<rparr> = Inr dates \<and>
            set dates \<subseteq> fst ` set final_series \<and> length dates = 12"
    using g by (auto simp: length_dates_from)
  from g crossing_terms build_crossing m d show ?thesis
    by (simp add: example_listify)
qed

subsection \<open>C3: the keys of the year map\<close>

text \<open>
  Claim C3. A call that leaves \<^verbatim>\<open>end_year\<close> out is the call with
  \<^verbatim>\<open>end_year = start_date.year\<close>. When \<^verbatim>\<open>build_historical_rainfall_dict\<close> returns,
  the keys of the year map are exactly the integers from \<^verbatim>\<open>start_year\<close> to
  \<^verbatim>\<open>end_year\<close>, both included, and each year \<open>y\<close> is mapped to the sum of the
  (capped) values and the number of the dates of the term projected onto \<open>y\<close>. And the
  call returns such a map whenever the series is fetched and every year's projected term
  can be built and lies in the series.
\<close>

theorem year_map_keys:
  "build_historical_rainfall_dict env lat lon ds start_date end_date cap start_year None up fr =
     build_historical_rainfall_dict env lat lon ds start_date end_date cap start_year
       (Some (year start_date)) up fr \<and>
   (build_historical_rainfall_dict env lat lon ds start_date end_date cap start_year end_year up fr =
      Inr (m, f) \<longrightarrow>
    dom m = {start_year .. (case end_year of None \<Rightarrow> year start_date | Some ey \<Rightarrow> ey)} \<and>
    (\<exists>s. get_rainfall_dict env lat lon ds = Inr s \<and>
       (\<forall>y\<in>{start_year .. (case end_year of None \<Rightarrow> year start_date | Some ey \<Rightarrow> ey)}.
          \<exists>dates.
            listify_period env (start_date\<lparr>year := y\<rparr>)
              (end_date\<lparr>year := y + (year end_date - year start_date)\<rparr>) = Inr dates \<and>
            m y = Some (sum_list (map (\<lambda>d. if truthy cap then min (the (map_of s d)) (the cap)
                                              else the (map_of s d)) dates), length dates)))) \<and>
   (get_rainfall_dict env lat lon ds = Inr s' \<and>
    (\<forall>z\<in>{start_year .. (case end_year of None \<Rightarrow> year start_date | Some ey \<Rightarrow> ey)}.
       valid_date (start_date\<lparr>year := z\<rparr>) \<and>
       valid_date (end_date\<lparr>year := z + (year end_date - year start_date)\<rparr>) \<and>
       listify_period env (start_date\<lparr>year := z\<rparr>)
         (end_date\<lparr>year := z + (year end_date - year start_date)\<rparr>) = Inr (terms z) \<and>
       set (terms z) \<subseteq> fst ` set s') \<longrightarrow>
      (\<exists>m'. build_historical_rainfall_dict env lat lon ds start_date end_date cap start_year
               end_year False fr = Inr (m', True) \<and>
            dom m' = {start_year .. (case end_year of None \<Rightarrow> year start_date | Some ey \<Rightarrow> ey)} \<and>
            (\<forall>z\<in>{start_year .. (case end_year of None \<Rightarrow> year start_date | Some ey \<Rightarrow> ey)}.
               m' z = Some (sum_list (map (\<lambda>d. if truthy cap
                                                  then min (the (map_of s' d)) (the cap)
                                                  else the (map_of s' d)) (terms z)),
                            length (terms z)))))"
proof (intro conjI impI)
  show "build_historical_rainfall_dict env lat lon ds start_date end_date cap start_year None up fr =
     build_historical_rainfall_dict env lat lon ds start_date end_date cap start_year
       (Some (year start_date)) up fr"
    by (simp add: build_historical_rainfall_dict_def split: sum.splits prod.splits)
next
  let ?ey = "case end_year of None \<Rightarrow> year start_date | Some ey \<Rightarrow> ey"
  assume b: "build_historical_rainfall_dict env lat lon ds start_date end_date cap start_year
      end_year up fr = Inr (m, f)"
  from build_Inr_fetched [OF b] obtain s where
    s: "get_rainfall_dict env lat lon ds = Inr s" and
    l: "year_loop env s start_date end_date cap [start_year .. ?ey] Map.empty = Inr m"
    by blast
  from year_loop_Inr [OF l] have
    d: "dom m = {start_year .. ?ey}" and
    e: "\<forall>y\<in>{start_year .. ?ey}. year_entry env s start_date end_date cap y = Inr (the (m y))"
    by auto
  show "dom m = {start_year .. ?ey}" by (rule d)
  have "\<forall>y\<in>{start_year .. ?ey}. \<exists>dates.
          listify_period env (start_date\<lparr>year := y\<rparr>)
            (end_date\<lparr>year := y + (year end_date - year start_date)\<rparr>) = Inr dates \<and>
          m y = Some (sum_list (map (\<lambda>d. if truthy cap then min (the (map_of s d)) (the cap)
                                            else the (map_of s d)) dates), length dates)"
  proof
    fix y assume y: "y \<in> {start_year .. ?ey}"
    with d obtain v where v: "m y = Some v" by blast
    with e y have "year_entry env s start_date end_date cap y = Inr v" by auto
    from year_entry_projected [OF this] v show "\<exists>dates.
          listify_period env (start_date\<lparr>year := y\<rparr>)
            (end_date\<lparr>year := y + (year end_date - year start_date)\<rparr>) = Inr dates \<and>
          m y = Some (sum_list (map (\<lambda>d. if truthy cap then min (the (map_of s d)) (the cap)
                                            else the (map_of s d)) dates), length dates)"
      by auto
  qed
  with s show "\<exists>s. get_rainfall_dict env lat lon ds = Inr s \<and>
       (\<forall>y\<in>{start_year .. ?ey}. \<exists>dates.
            listify_period env (start_date\<lparr>year := y\<rparr>)
              (end_date\<lparr>year := y + (year end_date - year start_date)\<rparr>) = Inr dates \<and>
            m y = Some (sum_list (map (\<lambda>d. if truthy cap then min (the (map_of s d)) (the cap)
                                              else the (map_of s d)) dates), length dates))"
    by blast
next
  let ?ey = "case end_year of None \<Rightarrow> year start_date | Some ey \<Rightarrow> ey"
  let ?g = "\<lambda>z. (sum_list (map (\<lambda>d. if truthy cap then min (the (map_of s' d)) (the cap)
                                      else the (map_of s' d)) (terms z)), length (terms z))"
  assume a: "get_rainfall_dict env lat lon ds = Inr s' \<and>
    (\<forall>z\<in>{start_year .. ?ey}.
       valid_date (start_date\<lparr>year := z\<rparr>) \<and>
       valid_date (end_date\<lparr>year := z + (year end_date - year start_date)\<rparr>) \<and>
       listify_period env (start_date\<lparr>year := z\<rparr>)
         (end_date\<lparr>year := z + (year end_date - year start_date)\<rparr>) = Inr (terms z) \<and>
       set (terms z) \<subseteq> fst ` set s')"
  then have "\<forall>z\<in>{start_year .. ?ey}. year_entry env s' start_date end_date cap z = Inr (?g z)"
    by (simp add: year_entry_returns)
  with a have "build_historical_rainfall_dict env lat lon ds start_date end_date cap start_year
      end_year False fr = Inr (\<lambda>z. if z \<in> {start_year .. ?ey} then Some (?g z) else None, True)"
    by (intro build_returns) simp_all
  moreover have "dom (\<lambda>z. if z \<in> {start_year .. ?ey} then Some (?g z) else None) =
      {start_year .. ?ey}"
    by (auto simp: dom_def)
  ultimately show "\<exists>m'. build_historical_rainfall_dict env lat lon ds start_date end_date cap
      start_year end_year False fr = Inr (m', True) \<and> dom m' = {start_year .. ?ey} \<and>
      (\<forall>z\<in>{start_year .. ?ey}. m' z = Some (?g z))"
    by (intro exI [of _ "\<lambda>z. if z \<in> {start_year .. ?ey} then Some (?g z) else None"]) simp
qed

theorem year_map_keys_witness:
  "build_historical_rainfall_dict example_externals 0 0 ''chirps''
     \<lparr>year = 2003, month = 6, day = 1\<rparr> \<lparr>year = 2003, month = 6, day = 10\<rparr> None 2000 (Some 2002)
     False (None :: string option) = Inr ([2000 \<mapsto> (55, 10), 2001 \<mapsto> (1055, 10), 2002 \<mapsto> (2055, 10)], True) \<and>
   dom [2000 \<mapsto> (55, 10), 2001 \<mapsto> (1055, 10), (2002::int) \<mapsto> (2055::real, 10::nat)] =
     {2000 .. 2002} \<and>
   build_historical_rainfall_dict example_externals 0 0 ''chirps''
     \<lparr>year = 2002, month = 6, day = 1\<rparr> \<lparr>year = 2002, month = 6, day = 10\<rparr> None 2000 None
     False (None :: string option) = Inr ([2000 \<mapsto> (55, 10), 2001 \<mapsto> (1055, 10), 2002 \<mapsto> (2055, 10)], True) \<and>
   get_rainfall_dict example_externals 0 0 ''chirps'' = Inr final_series \<and>
   (\<exists>m'. build_historical_rainfall_dict example_externals 0 0 ''chirps''
           \<lparr>year = 2003, month = 6, day = 1\<rparr> \<lparr>year = 2003, month = 6, day = 10\<rparr> None 2000
           (Some 2002) False (None :: string option) = Inr (m', True) \<and>
         dom m' = {2000 .. 2002} \<and>
         m' 2000 = Some (55, 10) \<and> m' 2001 = Some (1055, 10) \<and> m' 2002 = Some (2055, 10))"
proof -
  let ?sd = "\<lparr>year = 2003, month = 6, day = 1\<rparr>"
  let ?ed = "\<lparr>year = 2003, month = 6, day = 10\<rparr>"
  let ?terms = "\<lambda>z. dates_from \<lparr>year = z, month = 6, day = 1\<rparr> 10"
  note t = year_map_keys [of example_externals 0 0 "''chirps''" ?sd ?ed None 2000 False "None :: string option"
      "Some 2002" "[2000 \<mapsto> (55, 10), 2001 \<mapsto> (1055, 10), 2002 \<mapsto> (2055, 10)]" True
      final_series ?terms]
  note u = year_map_keys [of example_externals 0 0 "''chirps''"
      "\<lparr>year = 2002, month = 6, day = 1\<rparr>" "\<lparr>year = 2002, month = 6, day = 10\<rparr>" None 2000
      False "None :: string option", THEN conjunct1]
  have g: "get_rainfall_dict example_externals 0 0 ''chirps'' = Inr final_series"
    by (simp add: example_externals_def)
  from t [THEN conjunct2, THEN conjunct1, unfolded option.case] build_june have
    d: "dom [2000 \<mapsto> (55, 10), 2001 \<mapsto> (1055, 10), (2002::int) \<mapsto> (2055::real, 10::nat)] =
          {2000 .. 2002}"
    by blast
  from u build_june_default have
    n: "build_historical_rainfall_dict example_externals 0 0 ''chirps''
          \<lparr>year = 2002, month = 6, day = 1\<rparr> \<lparr>year = 2002, month = 6, day = 10\<rparr> None 2000 None
          False (None :: string option) = Inr ([2000 \<mapsto> (55, 10), 2001 \<mapsto> (1055, 10), 2002 \<mapsto> (2055, 10)], True)"
    by simp
  have h: "\<forall>z\<in>{2000 .. (case Some 2002 of None \<Rightarrow> year ?sd | Some ey \<Rightarrow> ey)}.
             valid_date (?sd\<lparr>year := z\<rparr>) \<and>
             valid_date (?ed\<lparr>year := z + (year ?ed - year ?sd)\<rparr>) \<and>
             listify_period example_externals (?sd\<lparr>year := z\<rparr>)
               (?ed\<lparr>year := z + (year ?ed - year ?sd)\<rparr>) = Inr (?terms z) \<and>
             set (?terms z) \<subseteq> fst ` set final_series"
  proof
    fix z :: int
    assume "z \<in> {2000 .. (case Some 2002 of None \<Rightarrow> year ?sd | Some ey \<Rightarrow> ey)}"
    then have "z = 2000 \<or> z = 2001 \<or> z = 2002" by auto
    then show "valid_date (?sd\<lparr>year := z\<rparr>) \<and>
             valid_date (?ed\<lparr>year := z + (year ?ed - year ?sd)\<rparr>) \<and>
             listify_period example_externals (?sd\<lparr>year := z\<rparr>)
               (?ed\<lparr>year := z + (year ?ed - year ?sd)\<rparr>) = Inr (?terms z) \<and>
             set (?terms z) \<subseteq> fst ` set final_series"
      using june_terms june_keys
      by (auto simp: example_listify valid_date_def days_in_month_def)
  qed
  from t [THEN conjunct2, THEN conjunct2] g h obtain m' where
    "build_historical_rainfall_dict example_externals 0 0 ''chirps'' ?sd ?ed None 2000
       (Some 2002) False (None :: string option) = Inr (m', True)"
    "dom m' = {2000 .. (case Some 2002 of None \<Rightarrow> year ?sd | Some ey \<Rightarrow> ey)}"
    "\<forall>z\<in>{2000 .. (case Some 2002 of None \<Rightarrow> year ?sd | Some ey \<Rightarrow> ey)}.
       m' z = Some (sum_list (map (\<lambda>d. if truthy None
                                         then min (the (map_of final_series d)) (the None)
                                         else the (map_of final_series d)) (?terms z)),
                    length (?terms z))"
    by blast
  then have "\<exists>m'. build_historical_rainfall_dict example_externals 0 0 ''chirps'' ?sd ?ed None
      2000 (Some 2002) False (None :: string option) = Inr (m', True) \<and> dom m' = {2000 .. 2002} \<and>
      m' 2000 = Some (55, 10) \<and> m' 2001 = Some (1055, 10) \<and> m' 2002 = Some (2055, 10)"
    using june_totals by (intro exI [of _ m']) (simp add: length_dates_from)
  with build_june d n g show ?thesis by simp
qed

subsection \<open>C4: the years of the lookback table\<close>

text \<open>
  Claim C4. A table that \<^verbatim>\<open>sum_period_df\<close> or \<^verbatim>\<open>avg_period_df\<close> returns has the
  single column \<^verbatim>\<open>value\<close> and one row for each year from \<^verbatim>\<open>ps.year - yrs\<close> to
  \<^verbatim>\<open>ps.year - 1\<close>, indexed by the year, in ascending order; the start year itself is
  never among them.
\<close>

theorem lookback_years:
  "(sum_period_df sl df ps pe yrs peril = Inr out \<longrightarrow>
      columns out = [''value''] \<and>
      map fst (rows out) = map real_of_int [year ps - yrs .. year ps - 1] \<and>
      sorted_wrt (<) (map fst (rows out)) \<and>
      real_of_int (year ps) \<notin> set (map fst (rows out))) \<and>
   (avg_period_df sl df ps pe yrs peril = Inr out' \<longrightarrow>
      columns out' = [''value''] \<and>
      map fst (rows out') = map real_of_int [year ps - yrs .. year ps - 1] \<and>
      sorted_wrt (<) (map fst (rows out')) \<and>
      real_of_int (year ps) \<notin> set (map fst (rows out')))"
proof (intro conjI impI)
  assume "sum_period_df sl df ps pe yrs peril = Inr out"
  from period_df_Inr [OF this [unfolded sum_period_df_def]] obtain cs where
    "out = year_frame (map real_of_int [year ps - yrs .. year ps - 1]) cs"
    "length cs = length [year ps - yrs .. year ps - 1]"
    by (auto dest: list_all2_lengthD)
  from years_index [OF this] show
    "columns out = [''value'']"
    "map fst (rows out) = map real_of_int [year ps - yrs .. year ps - 1]"
    "sorted_wrt (<) (map fst (rows out))"
    "real_of_int (year ps) \<notin> set (map fst (rows out))"
    by blast+
next
  assume "avg_period_df sl df ps pe yrs peril = Inr out'"
  from period_df_Inr [OF this [unfolded avg_period_df_def]] obtain cs where
    "out' = year_frame (map real_of_int [year ps - yrs .. year ps - 1]) cs"
    "length cs = length [year ps - yrs .. year ps - 1]"
    by (auto dest: list_all2_lengthD)
  from years_index [OF this] show
    "columns out' = [''value'']"
    "map fst (rows out') = map real_of_int [year ps - yrs .. year ps - 1]"
    "sorted_wrt (<) (map fst (rows out'))"
    "real_of_int (year ps) \<notin> set (map fst (rows out'))"
    by blast+
qed

theorem lookback_years_witness:
  "sum_period_df window_slice example_frame \<lparr>year = 2020, month = 6, day = 1\<rparr>
     \<lparr>year = 2020, month = 6, day = 3\<rparr> 3 ''rain'' =
   Inr \<lparr>columns = [''value''],
        rows = [(2017, [(''value'', Some 0)]), (2018, [(''value'', Some 0)]),
                (2019, [(''value'', Some 12)])]\<rparr> \<and>
   avg_period_df window_slice example_frame \<lparr>year = 2020, month = 6, day = 1\<rparr>
     \<lparr>year = 2020, month = 6, day = 3\<rparr> 3 ''rain'' =
   Inr \<lparr>columns = [''value''],
        rows = [(2017, [(''value'', None)]), (2018, [(''value'', None)]),
                (2019, [(''value'', Some 6)])]\<rparr> \<and>
   map real_of_int [year \<lparr>year = 2020, month = 6, day = 1\<rparr> - 3 ..
                    year \<lparr>year = 2020, month = 6, day = 1\<rparr> - 1] = [2017, 2018, 2019]"
  using lookback_years [of window_slice example_frame "\<lparr>year = 2020, month = 6, day = 1\<rparr>"
      "\<lparr>year = 2020, month = 6, day = 3\<rparr>" 3 "''rain''"
      "\<lparr>columns = [''value''],
        rows = [(2017, [(''value'', Some 0)]), (2018, [(''value'', Some 0)]),
                (2019, [(''value'', Some 12)])]\<rparr>"
      "\<lparr>columns = [''value''],
        rows = [(2017, [(''value'', None)]), (2018, [(''value'', None)]),
                (2019, [(''value'', Some 6)])]\<rparr>"]
    sum_example_frame avg_example_frame
  by simp

subsection \<open>C5: the total under a cap\<close>

text \<open>
  Claim C5 at a cap of zero. The docstring calls \<^verbatim>\<open>daily_cap\<close> the most rainfall to
  count for a day, and the claim bounds the total by the cap times the day count for
  every cap. The code tests the cap with \<^verbatim>\<open>if daily_cap:\<close>, so a cap of zero is
  skipped: on the first ten days of June 2000 both operations return the unclipped
  total 55 over 10 days, which is above \<open>0 * 10\<close>. For every other cap the bound holds
  (\<open>cap_bounds_total\<close>).
\<close>

theorem zero_cap_total_above_bound:
  "sum_period_rainfall example_externals 0 0 ''chirps'' \<lparr>year = 2000, month = 6, day = 1\<rparr>
     \<lparr>year = 2000, month = 6, day = 10\<rparr> (Some 0) False (None :: string option) = Inr (55, 10, True) \<and>
   \<not> (55::real) \<le> 0 * real (10::nat) \<and>
   build_historical_rainfall_dict example_externals 0 0 ''chirps''
     \<lparr>year = 2000, month = 6, day = 1\<rparr> \<lparr>year = 2000, month = 6, day = 10\<rparr> (Some 0) 2000
     (Some 2000) False (None :: string option) = Inr ([2000 \<mapsto> (55, 10)], True)"
  by (simp add: operation_defs example_defs eval_nat_numeral)

subsection \<open>C6: without preliminary data the result is final\<close>

text \<open>
  Claim C6. With \<^verbatim>\<open>use_prelim\<close> false, whatever the fetch returns, the flag
  \<^verbatim>\<open>is_final\<close> that \<^verbatim>\<open>sum_period_rainfall\<close> and
  \<^verbatim>\<open>build_historical_rainfall_dict\<close> return is true.
\<close>

theorem final_without_prelim:
  "(sum_period_rainfall env lat lon ds sd ed cap False fr = Inr (t, n, f) \<longrightarrow> f) \<and>
   (build_historical_rainfall_dict env lat lon ds sd ed cap sy ey False fr = Inr (m, f') \<longrightarrow> f')"
proof (intro conjI impI)
  assume "sum_period_rainfall env lat lon ds sd ed cap False fr = Inr (t, n, f)"
  then obtain s e' where "resolve_series env lat lon ds ed False fr = Inr (s, e', f)"
    by (auto simp: sum_period_rainfall_def split: sum.splits prod.splits)
  then show f by (rule resolve_plain [THEN conjunct1])
next
  assume "build_historical_rainfall_dict env lat lon ds sd ed cap sy ey False fr = Inr (m, f')"
  from build_Inr [OF this] obtain s e' where
    "resolve_series env lat lon ds ed False fr = Inr (s, e', f')" by blast
  then show f' by (rule resolve_plain [THEN conjunct1])
qed

theorem final_without_prelim_witness:
  "sum_period_rainfall example_externals 0 0 ''chirps'' \<lparr>year = 2000, month = 6, day = 1\<rparr>
     \<lparr>year = 2000, month = 6, day = 10\<rparr> None False (None :: string option) = Inr (55, 10, True) \<and>
   build_historical_rainfall_dict example_externals 0 0 ''chirps''
     \<lparr>year = 2000, month = 6, day = 1\<rparr> \<lparr>year = 2000, month = 6, day = 10\<rparr> None 2000 (Some 2002)
     False (None :: string option) = Inr ([2000 \<mapsto> (55, 10), 2001 \<mapsto> (1055, 10), 2002 \<mapsto> (2055, 10)], True)"
  using final_without_prelim [of example_externals 0 0 "''chirps''"
      "\<lparr>year = 2000, month = 6, day = 1\<rparr>" "\<lparr>year = 2000, month = 6, day = 10\<rparr>" None None
      55 10 True 2000 "Some 2002"
      "[2000 \<mapsto> (55, 10), 2001 \<mapsto> (1055, 10), 2002 \<mapsto> (2055, 10)]" True]
    sum_june_2000 build_june_2000
  by simp

subsection \<open>C7: a year whose window has no rows\<close>

text \<open>
  Claim C7, amended. When the slice of every lookback year succeeds and the column is in
  the frame, both functions return a table, and a year whose window has no rows has the
  value 0 in the table of \<^verbatim>\<open>sum_period_df\<close> and NaN in the table of
  \<^verbatim>\<open>avg_period_df\<close>: neither raises for the empty window, but the sum of no values is
  0, not NaN.
\<close>

theorem empty_window_value:
  assumes "\<forall>y\<in>{year ps - yrs .. year ps - 1}.
             \<exists>chunk. sl df (fst (period_labels ps pe y)) (snd (period_labels ps pe y)) = Inr chunk \<and>
                     peril \<in> set (columns chunk)"
  shows "\<exists>out_s out_a.
           sum_period_df sl df ps pe yrs peril = Inr out_s \<and>
           avg_period_df sl df ps pe yrs peril = Inr out_a \<and>
           (\<forall>y\<in>{year ps - yrs .. year ps - 1}. \<forall>chunk.
              sl df (fst (period_labels ps pe y)) (snd (period_labels ps pe y)) = Inr chunk \<and>
              rows chunk = [] \<longrightarrow>
                (real_of_int y, [(''value'', Some 0)]) \<in> set (rows out_s) \<and>
                (real_of_int y, [(''value'', None)]) \<in> set (rows out_a))"
proof -
  let ?ys = "[year ps - yrs .. year ps - 1]"
  have tot: "\<forall>y\<in>set ?ys. \<exists>c. year_value sl red df ps pe peril y = Inr c" for red
    using assms year_value_total [of sl df ps pe _ _ peril red] by auto
  from period_df_total [OF tot [of series_sum]] obtain cs where
    s: "sum_period_df sl df ps pe yrs peril = Inr (year_frame (map real_of_int ?ys) cs)" and
    ls: "list_all2 (\<lambda>y c. year_value sl series_sum df ps pe peril y = Inr c) ?ys cs"
    by (auto simp: sum_period_df_def)
  from period_df_total [OF tot [of series_mean]] obtain ca where
    a: "avg_period_df sl df ps pe yrs peril = Inr (year_frame (map real_of_int ?ys) ca)" and
    la: "list_all2 (\<lambda>y c. year_value sl series_mean df ps pe peril y = Inr c) ?ys ca"
    by (auto simp: avg_period_df_def)
  have "(real_of_int y, [(''value'', Some 0)]) \<in> set (rows (year_frame (map real_of_int ?ys) cs)) \<and>
        (real_of_int y, [(''value'', None)]) \<in> set (rows (year_frame (map real_of_int ?ys) ca))"
    if y: "y \<in> {year ps - yrs .. year ps - 1}"
      and c: "sl df (fst (period_labels ps pe y)) (snd (period_labels ps pe y)) = Inr chunk"
      and e: "rows chunk = []" for y chunk
  proof -
    from assms y obtain chunk' where
      "sl df (fst (period_labels ps pe y)) (snd (period_labels ps pe y)) = Inr chunk'"
      "peril \<in> set (columns chunk')"
      by blast
    with c have p: "peril \<in> set (columns chunk)" by simp
    have "year_value sl series_sum df ps pe peril y = Inr (Some 0)"
      using year_value_empty [where sl = sl and df = df and red = series_sum, OF c p e]
      by (simp add: series_sum_def)
    moreover have "year_value sl series_mean df ps pe peril y = Inr None"
      using year_value_empty [where sl = sl and df = df and red = series_mean, OF c p e]
      by (simp add: series_mean_def)
    moreover from y have "y \<in> set ?ys" by simp
    ultimately show ?thesis
      using period_df_row [OF ls] period_df_row [OF la] by blast
  qed
  with s a show ?thesis by blast
qed

theorem empty_window_value_witness:
  "window_slice example_frame ''2018-6-1'' ''2018-6-3'' = Inr \<lparr>columns = [''rain''], rows = []\<rparr> \<and>
   window_slice example_frame ''2019-6-1'' ''2019-6-3'' = Inr example_frame \<and>
   ''rain'' \<in> set (columns example_frame) \<and>
   (\<exists>out_s out_a.
      sum_period_df window_slice example_frame \<lparr>year = 2020, month = 6, day = 1\<rparr>
        \<lparr>year = 2020, month = 6, day = 3\<rparr> 2 ''rain'' = Inr out_s \<and>
      avg_period_df window_slice example_frame \<lparr>year = 2020, month = 6, day = 1\<rparr>
        \<lparr>year = 2020, month = 6, day = 3\<rparr> 2 ''rain'' = Inr out_a \<and>
      (2018, [(''value'', Some 0)]) \<in> set (rows out_s) \<and>
      (2018, [(''value'', None)]) \<in> set (rows out_a))"
proof -
  let ?ps = "\<lparr>year = 2020, month = 6, day = 1\<rparr>"
  let ?pe = "\<lparr>year = 2020, month = 6, day = 3\<rparr>"
  have h: "\<forall>y\<in>{year ?ps - 2 .. year ?ps - 1}.
             \<exists>chunk. window_slice example_frame (fst (period_labels ?ps ?pe y))
                       (snd (period_labels ?ps ?pe y)) = Inr chunk \<and>
                     ''rain'' \<in> set (columns chunk)"
  proof
    fix y :: int assume "y \<in> {year ?ps - 2 .. year ?ps - 1}"
    then have "y = 2018 \<or> y = 2019" by auto
    then show "\<exists>chunk. window_slice example_frame (fst (period_labels ?ps ?pe y))
                       (snd (period_labels ?ps ?pe y)) = Inr chunk \<and>
                     ''rain'' \<in> set (columns chunk)"
      using labels_example window_2018 window_2019 by (auto simp: example_frame_def)
  qed
  from empty_window_value [where sl = window_slice and df = example_frame and ps = ?ps
      and pe = ?pe and yrs = 2 and peril = "''rain''", OF h] obtain out_s out_a where
    s: "sum_period_df window_slice example_frame ?ps ?pe 2 ''rain'' = Inr out_s" and
    a: "avg_period_df window_slice example_frame ?ps ?pe 2 ''rain'' = Inr out_a" and
    r: "\<forall>y\<in>{year ?ps - 2 .. year ?ps - 1}. \<forall>chunk.
          window_slice example_frame (fst (period_labels ?ps ?pe y))
            (snd (period_labels ?ps ?pe y)) = Inr chunk \<and> rows chunk = [] \<longrightarrow>
          (real_of_int y, [(''value'', Some 0)]) \<in> set (rows out_s) \<and>
          (real_of_int y, [(''value'', None)]) \<in> set (rows out_a)"
    by blast
  have "(2018::int) \<in> {year ?ps - 2 .. year ?ps - 1}" by simp
  with r [rule_format, of 2018 "\<lparr>columns = [''rain''], rows = []\<rparr>"] labels_example window_2018
  have "(2018, [(''value'', Some 0)]) \<in> set (rows out_s) \<and>
        (2018, [(''value'', None)]) \<in> set (rows out_a)"
    by simp
  with s a window_2018 window_2019 show ?thesis by (auto simp: example_frame_def)
qed

text \<open>
  The claim as stated fails for the sum: the example frame has no rows in June 2018, and
  the row of 2018 in the table of \<^verbatim>\<open>sum_period_df\<close> holds 0, which is not NaN.
\<close>

theorem empty_window_sum_counterexample:
  "window_slice example_frame ''2018-6-1'' ''2018-6-3'' = Inr \<lparr>columns = [''rain''], rows = []\<rparr> \<and>
   sum_period_df window_slice example_frame \<lparr>year = 2020, month = 6, day = 1\<rparr>
     \<lparr>year = 2020, month = 6, day = 3\<rparr> 2 ''rain'' =
   Inr \<lparr>columns = [''value''],
        rows = [(2018, [(''value'', Some 0)]), (2019, [(''value'', Some 12)])]\<rparr> \<and>
   Some (0::real) \<noteq> None"
  by (simp add: table_defs)

subsection \<open>C8: a date that is not in the series\<close>

text \<open>
  Claim C8. The aggregation over a date sequence returns the sum of the (capped) values
  and the length of the sequence when every date is a key of the series, and raises
  \<^verbatim>\<open>KeyError\<close> (the spec's MissingDateError) for a date of the sequence that is not a
  key otherwise. \<^verbatim>\<open>sum_period_rainfall\<close> returns or raises accordingly on the dates
  of its period, and \<^verbatim>\<open>build_historical_rainfall_dict\<close>, when every year's dates can
  be built, returns every year's sum and length when no year misses a date and raises
  \<^verbatim>\<open>KeyError\<close> for a missing date of some year otherwise.
\<close>

theorem missing_date_raises:
  "(set dates \<subseteq> fst ` set s \<longrightarrow>
      rain_total s cap dates =
        Inr (sum_list (map (\<lambda>d. if truthy cap then min (the (map_of s d)) (the cap)
                                   else the (map_of s d)) dates), length dates)) \<and>
   (\<not> set dates \<subseteq> fst ` set s \<longrightarrow>
      (\<exists>d\<in>set dates. d \<notin> fst ` set s \<and> rain_total s cap dates = Inl (KeyError d))) \<and>
   (resolve_series env lat lon ds ed up fr = Inr (s, e', f) \<and>
    listify_period env sd e' = Inr dates \<longrightarrow>
      sum_period_rainfall env lat lon ds sd ed cap up fr =
        (case rain_total s cap dates of Inl e \<Rightarrow> Inl e | Inr (t, n) \<Rightarrow> Inr (t, n, f))) \<and>
   (resolve_series env lat lon ds ed up fr = Inr (s, e', f) \<and>
    (\<forall>y\<in>{sy .. (case ey of None \<Rightarrow> year sd | Some z \<Rightarrow> z)}.
       year_term env sd e' y = Inr (terms y)) \<longrightarrow>
      ((\<forall>y\<in>{sy .. (case ey of None \<Rightarrow> year sd | Some z \<Rightarrow> z)}.
          set (terms y) \<subseteq> fst ` set s) \<longrightarrow>
       (\<exists>m. build_historical_rainfall_dict env lat lon ds sd ed cap sy ey up fr = Inr (m, f) \<and>
            (\<forall>y\<in>{sy .. (case ey of None \<Rightarrow> year sd | Some z \<Rightarrow> z)}.
               m y = Some (sum_list (map (\<lambda>d. if truthy cap
                                                 then min (the (map_of s d)) (the cap)
                                                 else the (map_of s d)) (terms y)),
                           length (terms y))))) \<and>
      ((\<exists>y\<in>{sy .. (case ey of None \<Rightarrow> year sd | Some z \<Rightarrow> z)}.
          \<not> set (terms y) \<subseteq> fst ` set s) \<longrightarrow>
       (\<exists>y\<in>{sy .. (case ey of None \<Rightarrow> year sd | Some z \<Rightarrow> z)}.
          \<exists>d\<in>set (terms y). d \<notin> fst ` set s \<and>
            build_historical_rainfall_dict env lat lon ds sd ed cap sy ey up fr =
              Inl (KeyError d))))"
proof -
  let ?ey = "case ey of None \<Rightarrow> year sd | Some z \<Rightarrow> z"
  let ?v = "\<lambda>ds. (sum_list (map (\<lambda>d. if truthy cap then min (the (map_of s d)) (the cap)
                                       else the (map_of s d)) ds), length ds)"
  have a: "set dates \<subseteq> fst ` set s \<longrightarrow> rain_total s cap dates = Inr (?v dates)"
    by (simp add: rain_total_ok)
  have b: "\<not> set dates \<subseteq> fst ` set s \<longrightarrow>
             (\<exists>d\<in>set dates. d \<notin> fst ` set s \<and> rain_total s cap dates = Inl (KeyError d))"
    using rain_total_missing [of dates s cap] by blast
  have c: "resolve_series env lat lon ds ed up fr = Inr (s, e', f) \<and>
           listify_period env sd e' = Inr dates \<longrightarrow>
             sum_period_rainfall env lat lon ds sd ed cap up fr =
               (case rain_total s cap dates of Inl e \<Rightarrow> Inl e | Inr (t, n) \<Rightarrow> Inr (t, n, f))"
    by (simp add: sum_period_rainfall_def)
  have d: "((\<forall>y\<in>{sy .. ?ey}. set (terms y) \<subseteq> fst ` set s) \<longrightarrow>
             (\<exists>m. build_historical_rainfall_dict env lat lon ds sd ed cap sy ey up fr = Inr (m, f) \<and>
                  (\<forall>y\<in>{sy .. ?ey}. m y = Some (?v (terms y))))) \<and>
           ((\<exists>y\<in>{sy .. ?ey}. \<not> set (terms y) \<subseteq> fst ` set s) \<longrightarrow>
             (\<exists>y\<in>{sy .. ?ey}. \<exists>d\<in>set (terms y). d \<notin> fst ` set s \<and>
                build_historical_rainfall_dict env lat lon ds sd ed cap sy ey up fr =
                  Inl (KeyError d)))"
    if r: "resolve_series env lat lon ds ed up fr = Inr (s, e', f)"
      and t: "\<forall>y\<in>{sy .. ?ey}. year_term env sd e' y = Inr (terms y)"
  proof (intro conjI impI)
    assume ok: "\<forall>y\<in>{sy .. ?ey}. set (terms y) \<subseteq> fst ` set s"
    have en: "\<forall>y\<in>{sy .. ?ey}. year_entry env s sd e' cap y = Inr (?v (terms y))"
      using t ok by (simp add: year_entry_term rain_total_ok)
    then have "\<forall>y\<in>set [sy .. ?ey]. \<exists>v. year_entry env s sd e' cap y = Inr v"
      by simp
    from year_loop_total [OF this] obtain m where
      l: "year_loop env s sd e' cap [sy .. ?ey] Map.empty = Inr m" by blast
    from year_loop_Inr [OF l] have
      dm: "dom m = {sy .. ?ey}" and
      em: "\<forall>y\<in>{sy .. ?ey}. year_entry env s sd e' cap y = Inr (the (m y))"
      by auto
    have "\<forall>y\<in>{sy .. ?ey}. m y = Some (?v (terms y))"
    proof
      fix y assume y: "y \<in> {sy .. ?ey}"
      with dm obtain v where v: "m y = Some v" by blast
      with em en y show "m y = Some (?v (terms y))" by auto
    qed
    moreover have "build_historical_rainfall_dict env lat lon ds sd ed cap sy ey up fr = Inr (m, f)"
      by (simp add: build_resolved [OF r] l)
    ultimately show "\<exists>m. build_historical_rainfall_dict env lat lon ds sd ed cap sy ey up fr =
          Inr (m, f) \<and> (\<forall>y\<in>{sy .. ?ey}. m y = Some (?v (terms y)))"
      by blast
  next
    assume "\<exists>y\<in>{sy .. ?ey}. \<not> set (terms y) \<subseteq> fst ` set s"
    then obtain y0 where y0: "y0 \<in> {sy .. ?ey}" and
      m0: "\<not> set (terms y0) \<subseteq> fst ` set s" by blast
    from rain_total_missing [OF m0, of cap] y0 t obtain x0 where
      "year_entry env s sd e' cap y0 = Inl x0"
      by (auto simp: year_entry_term)
    with y0 have "\<exists>x'. year_loop env s sd e' cap [sy .. ?ey] Map.empty = Inl x'"
      by (intro year_loop_fails [of y0]) auto
    then obtain x where l: "year_loop env s sd e' cap [sy .. ?ey] Map.empty = Inl x" by blast
    from year_loop_first_error [OF l] obtain y where
      y: "y \<in> {sy .. ?ey}" and ye: "year_entry env s sd e' cap y = Inl x" by auto
    from y t ye have rt: "rain_total s cap (terms y) = Inl x"
      by (simp add: year_entry_term)
    have "\<not> set (terms y) \<subseteq> fst ` set s"
    proof
      assume "set (terms y) \<subseteq> fst ` set s"
      from rain_total_ok [OF this, of cap] rt show False by simp
    qed
    from rain_total_missing [OF this, of cap] rt obtain d where
      "d \<in> set (terms y)" "d \<notin> fst ` set s" "x = KeyError d" by auto
    moreover have "build_historical_rainfall_dict env lat lon ds sd ed cap sy ey up fr = Inl x"
      by (simp add: build_resolved [OF r] l)
    ultimately show "\<exists>y\<in>{sy .. ?ey}. \<exists>d\<in>set (terms y). d \<notin> fst ` set s \<and>
        build_historical_rainfall_dict env lat lon ds sd ed cap sy ey up fr = Inl (KeyError d)"
      using y by blast
  qed
  from a b c d show ?thesis by blast
qed

theorem missing_date_raises_witness:
  "resolve_series example_externals 0 0 ''chirps'' \<lparr>year = 2000, month = 6, day = 11\<rparr> False (None :: string option) =
     Inr (final_series, \<lparr>year = 2000, month = 6, day = 11\<rparr>, True) \<and>
   listify_period example_externals \<lparr>year = 2000, month = 6, day = 9\<rparr>
     \<lparr>year = 2000, month = 6, day = 11\<rparr> =
     Inr [\<lparr>year = 2000, month = 6, day = 9\<rparr>, \<lparr>year = 2000, month = 6, day = 10\<rparr>,
          \<lparr>year = 2000, month = 6, day = 11\<rparr>] \<and>
   \<lparr>year = 2000, month = 6, day = 11\<rparr> \<notin> fst ` set final_series \<and>
   sum_period_rainfall example_externals 0 0 ''chirps'' \<lparr>year = 2000, month = 6, day = 9\<rparr>
     \<lparr>year = 2000, month = 6, day = 11\<rparr> None False (None :: string option) =
     Inl (KeyError \<lparr>year = 2000, month = 6, day = 11\<rparr>) \<and>
   (\<exists>d. d \<notin> fst ` set final_series \<and>
      build_historical_rainfall_dict example_externals 0 0 ''chirps''
        \<lparr>year = 2000, month = 6, day = 9\<rparr> \<lparr>year = 2000, month = 6, day = 11\<rparr> None 2000
        (Some 2001) False (None :: string option) = Inl (KeyError d))"
proof -
  let ?sd = "\<lparr>year = 2000, month = 6, day = 9\<rparr>"
  let ?ed = "\<lparr>year = 2000, month = 6, day = 11\<rparr>"
  let ?terms = "\<lambda>y. [\<lparr>year = y, month = 6, day = 9\<rparr>, \<lparr>year = y, month = 6, day = 10\<rparr>,
                      \<lparr>year = y, month = 6, day = 11\<rparr>]"
  note t = missing_date_raises [of "?terms 2000" final_series None example_externals 0 0
      "''chirps''" ?ed False "None :: string option" ?ed True ?sd 2000 "Some 2001" ?terms]
  have r: "resolve_series example_externals 0 0 ''chirps'' ?ed False (None :: string option) =
             Inr (final_series, ?ed, True)"
    by (rule example_plain)
  have l: "listify_period example_externals ?sd ?ed = Inr (?terms 2000)"
    by (simp add: example_listify june_9_to_11)
  have m: "\<not> set (?terms 2000) \<subseteq> fst ` set final_series"
    using final_series_keys by simp
  have y: "\<forall>y\<in>{2000 .. (case Some 2001 of None \<Rightarrow> year ?sd | Some z \<Rightarrow> z)}.
             year_term example_externals ?sd ?ed y = Inr (?terms y)"
    by (auto simp: year_term_def replace_year_def valid_date_def days_in_month_def
        example_listify june_9_to_11)
  from t m obtain d where
    d: "d \<in> set (?terms 2000)" "d \<notin> fst ` set final_series"
       "rain_total final_series None (?terms 2000) = Inl (KeyError d)"
    by blast
  with final_series_keys have d11: "d = ?ed" by auto
  from t r l d d11 have s: "sum_period_rainfall example_externals 0 0 ''chirps'' ?sd ?ed None
      False (None :: string option) = Inl (KeyError ?ed)"
    by simp
  have "\<exists>y\<in>{2000 .. (case Some 2001 of None \<Rightarrow> year ?sd | Some z \<Rightarrow> z)}.
          \<not> set (?terms y) \<subseteq> fst ` set final_series"
    using m by (intro bexI [of _ 2000]) auto
  with t r y have "\<exists>d. d \<notin> fst ` set final_series \<and>
      build_historical_rainfall_dict example_externals 0 0 ''chirps'' ?sd ?ed None 2000
        (Some 2001) False (None :: string option) = Inl (KeyError d)"
    by blast
  with r l s final_series_keys show ?thesis by simp
qed

subsection \<open>C9: projecting 29 February onto a year that is not a leap year\<close>

text \<open>
  Claim C9, amended. \<^verbatim>\<open>date.replace(year=y)\<close> substitutes no date: it keeps month and
  day, and returns a date exactly when \<open>y\<close> is between 1 and 9999 and, for 29 February,
  a leap year; otherwise it raises \<^verbatim>\<open>ValueError\<close>. So when the start date, or the end
  date the function holds after the fetch, is 29 February and a year of the range
  projects it onto a year that is not a leap year,
  \<^verbatim>\<open>build_historical_rainfall_dict\<close> raises and returns no year map.
\<close>

theorem leap_day_projection_fails:
  "(valid_date d \<longrightarrow>
      replace_year d y =
        (if 1 \<le> y \<and> y \<le> 9999 \<and> (is_leap y \<or> \<not> (month d = 2 \<and> day d = 29))
         then Inr (d\<lparr>year := y\<rparr>) else Inl ValueError)) \<and>
   (month sd = 2 \<and> day sd = 29 \<and> \<not> is_leap y \<and>
    y \<in> {sy .. (case ey of None \<Rightarrow> year sd | Some z \<Rightarrow> z)} \<longrightarrow>
      (\<exists>e. build_historical_rainfall_dict env lat lon ds sd ed cap sy ey up fr = Inl e)) \<and>
   (resolve_series env lat lon ds ed up fr = Inr (s, e', f) \<and>
    month e' = 2 \<and> day e' = 29 \<and> \<not> is_leap (y + (year e' - year sd)) \<and>
    y \<in> {sy .. (case ey of None \<Rightarrow> year sd | Some z \<Rightarrow> z)} \<longrightarrow>
      (\<exists>e. build_historical_rainfall_dict env lat lon ds sd ed cap sy ey up fr = Inl e))"
proof (intro conjI impI)
  assume "valid_date d"
  then show "replace_year d y =
        (if 1 \<le> y \<and> y \<le> 9999 \<and> (is_leap y \<or> \<not> (month d = 2 \<and> day d = 29))
         then Inr (d\<lparr>year := y\<rparr>) else Inl ValueError)"
    by (rule replace_year_valid)
next
  assume a: "month sd = 2 \<and> day sd = 29 \<and> \<not> is_leap y \<and>
    y \<in> {sy .. (case ey of None \<Rightarrow> year sd | Some z \<Rightarrow> z)}"
  then have "replace_year sd y = Inl ValueError"
    by (simp add: replace_year_def valid_date_def days_in_month_def)
  then have "\<And>e'. year_term env sd e' y = Inl ValueError"
    by (simp add: year_term_def)
  with a show "\<exists>e. build_historical_rainfall_dict env lat lon ds sd ed cap sy ey up fr = Inl e"
    by (intro build_fails_in_year [where y = y and x = ValueError]) auto
next
  assume a: "resolve_series env lat lon ds ed up fr = Inr (s, e', f) \<and>
    month e' = 2 \<and> day e' = 29 \<and> \<not> is_leap (y + (year e' - year sd)) \<and>
    y \<in> {sy .. (case ey of None \<Rightarrow> year sd | Some z \<Rightarrow> z)}"
  then have "replace_year e' (y + (year e' - year sd)) = Inl ValueError"
    by (simp add: replace_year_def valid_date_def days_in_month_def)
  then have "year_term env sd e' y = Inl ValueError"
    by (simp add: year_term_def split: sum.splits) (simp add: replace_year_def split: if_splits)
  with a show "\<exists>e. build_historical_rainfall_dict env lat lon ds sd ed cap sy ey up fr = Inl e"
    by (intro build_fails_in_year [where y = y and x = ValueError]) auto
qed

theorem leap_day_projection_fails_witness:
  "valid_date \<lparr>year = 2000, month = 2, day = 29\<rparr> \<and>
   replace_year \<lparr>year = 2000, month = 2, day = 29\<rparr> 2004 = Inr \<lparr>year = 2004, month = 2, day = 29\<rparr> \<and>
   replace_year \<lparr>year = 2000, month = 2, day = 29\<rparr> 1900 = Inl ValueError \<and>
   \<not> is_leap 2003 \<and>
   (\<exists>e. build_historical_rainfall_dict example_externals 0 0 ''chirps''
      \<lparr>year = 2000, month = 2, day = 29\<rparr> \<lparr>year = 2000, month = 3, day = 2\<rparr> None 2000 (Some 2004)
      False (None :: string option) = Inl e) \<and>
   \<not> is_leap (2001 + (2000 - 2000)) \<and>
   (\<exists>e. build_historical_rainfall_dict example_externals 0 0 ''chirps''
      \<lparr>year = 2000, month = 2, day = 27\<rparr> \<lparr>year = 2000, month = 2, day = 29\<rparr> None 2001 (Some 2001)
      False (None :: string option) = Inl e)"
proof -
  have v: "valid_date \<lparr>year = 2000, month = 2, day = 29\<rparr>"
    by (simp add: valid_date_def days_in_month_def is_leap_def)
  have l: "\<not> is_leap 2003" "\<not> is_leap (2001 + (2000 - 2000))" "is_leap 2004" "\<not> is_leap 1900"
    by (simp_all add: is_leap_def)
  note a = leap_day_projection_fails [of "\<lparr>year = 2000, month = 2, day = 29\<rparr>" 2004,
      THEN conjunct1]
  note b = leap_day_projection_fails [of "\<lparr>year = 2000, month = 2, day = 29\<rparr>" 1900,
      THEN conjunct1]
  note c = leap_day_projection_fails [of _ 2003 "\<lparr>year = 2000, month = 2, day = 29\<rparr>" 2000
      "Some 2004" example_externals 0 0 "''chirps''" "\<lparr>year = 2000, month = 3, day = 2\<rparr>" None
      False "None :: string option", THEN conjunct2, THEN conjunct1]
  note d = leap_day_projection_fails [of _ 2001 "\<lparr>year = 2000, month = 2, day = 27\<rparr>" 2001
      "Some 2001" example_externals 0 0 "''chirps''" "\<lparr>year = 2000, month = 2, day = 29\<rparr>" None
      False "None :: string option" final_series "\<lparr>year = 2000, month = 2, day = 29\<rparr>" True,
      THEN conjunct2, THEN conjunct2]
  from a v l have "replace_year \<lparr>year = 2000, month = 2, day = 29\<rparr> 2004 =
      Inr \<lparr>year = 2004, month = 2, day = 29\<rparr>" by simp
  moreover from b v l have "replace_year \<lparr>year = 2000, month = 2, day = 29\<rparr> 1900 = Inl ValueError"
    by simp
  moreover from c l have "\<exists>e. build_historical_rainfall_dict example_externals 0 0 ''chirps''
      \<lparr>year = 2000, month = 2, day = 29\<rparr> \<lparr>year = 2000, month = 3, day = 2\<rparr> None 2000 (Some 2004)
      False (None :: string option) = Inl e" by simp
  moreover from d l example_plain [of 0 0 "''chirps''" "\<lparr>year = 2000, month = 2, day = 29\<rparr>"
      "None :: string option"] have "\<exists>e. build_historical_rainfall_dict example_externals 0 0
      ''chirps'' \<lparr>year = 2000, month = 2, day = 27\<rparr> \<lparr>year = 2000, month = 2, day = 29\<rparr> None 2001
      (Some 2001) False (None :: string option) = Inl e" by simp
  ultimately show ?thesis using v l by simp
qed

text \<open>
  The claim as stated fails: projecting the start date 29 February 2000 onto 2001 raises
  \<^verbatim>\<open>ValueError\<close>, and so does the call.
\<close>

theorem leap_day_counterexample:
  "valid_date \<lparr>year = 2000, month = 2, day = 29\<rparr> \<and>
   valid_date \<lparr>year = 2000, month = 3, day = 2\<rparr> \<and>
   replace_year \<lparr>year = 2000, month = 2, day = 29\<rparr> 2001 = Inl ValueError \<and>
   build_historical_rainfall_dict example_externals 0 0 ''chirps''
     \<lparr>year = 2000, month = 2, day = 29\<rparr> \<lparr>year = 2000, month = 3, day = 2\<rparr> None 2001 (Some 2001)
     False (None :: string option) = Inl ValueError"
  by (simp add: build_historical_rainfall_dict_def resolve_series_def year_entry_def year_term_def
      replace_year_def valid_date_def days_in_month_def is_leap_def example_externals_def)

subsection \<open>C10: a cap of zero is no cap\<close>

text \<open>
  Claim C10. The cap is tested for truthiness, so both operations return with
  \<^verbatim>\<open>daily_cap = 0\<close> exactly what they return with no cap: no value is clipped.
\<close>

theorem zero_cap_is_no_cap:
  "sum_period_rainfall env lat lon ds sd ed (Some 0) up fr =
     sum_period_rainfall env lat lon ds sd ed None up fr \<and>
   build_historical_rainfall_dict env lat lon ds sd ed (Some 0) sy ey up fr =
     build_historical_rainfall_dict env lat lon ds sd ed None sy ey up fr"
  by (simp add: sum_period_rainfall_def build_historical_rainfall_dict_def rain_total_zero_cap
      year_loop_zero_cap split: sum.splits prod.splits)

theorem zero_cap_is_no_cap_witness:
  "sum_period_rainfall example_externals 0 0 ''chirps'' \<lparr>year = 2000, month = 6, day = 1\<rparr>
     \<lparr>year = 2000, month = 6, day = 10\<rparr> (Some 0) False (None :: string option) = Inr (55, 10, True)"
  using zero_cap_is_no_cap [of example_externals 0 0 "''chirps''"
      "\<lparr>year = 2000, month = 6, day = 1\<rparr>" "\<lparr>year = 2000, month = 6, day = 10\<rparr>" False "None :: string option"]
    sum_june_2000
  by simp

end
